theory Spec2Isabelle
  imports Complex_Main
begin

section \<open>Conventions of the embedding\<close>

text \<open>
  The development embeds the core of the data API: the helpers of
  \<^verbatim>\<open>app/routers/data.py\<close> and the predict branches of its precipitation, temperature
  and wind endpoints, the grid adapters of \<^verbatim>\<open>app/services/merra2.py\<close> and
  \<^verbatim>\<open>app/services/imerg.py\<close>, and the station adapters of
  \<^verbatim>\<open>app/services/openaq_airnow.py\<close>.

  \<^item> A Python \<^verbatim>\<open>float\<close> is a \<^typ>\<open>real\<close>: arithmetic is exact, the rounding error
    of binary64 is not modelled, and \<^verbatim>\<open>nan\<close> is written out where the source tests
    for it (\<^verbatim>\<open>isnan\<close>).
  \<^item> A Python \<^verbatim>\<open>int\<close> is an \<^typ>\<open>int\<close>.
  \<^item> A leading underscore of a Python name is dropped (\<^verbatim>\<open>_stats\<close> is \<open>stats\<close>), and a
    name that is a keyword here gets a prefix.
  \<^item> An exception is a value: a function that can raise returns \<open>exn + 'a\<close>, with
    \<open>Inl\<close> the exception that leaves the function.
  \<^item> What the code calls in the interpreter and its libraries (the built-in hash, the
    random generator, the regular-expression scans, the HTTP client) is a parameter of
    the functions that use it.
\<close>

section \<open>Python's built-in rounding\<close>

text \<open>
  \<^verbatim>\<open>round(x)\<close> rounds to the nearest integer, a tie to the even neighbour;
  \<^verbatim>\<open>round(x, nd)\<close> does the same at \<open>nd\<close> decimal places.
\<close>

definition py_round0 :: "real \<Rightarrow> int" where
  "py_round0 x =
     (let f = \<lfloor>x\<rfloor>; r = x - of_int f
      in if r < 1 / 2 then f else if 1 / 2 < r then f + 1 else if even f then f else f + 1)"

definition py_round :: "real \<Rightarrow> int \<Rightarrow> real" where
  "py_round x nd =
     (if 0 \<le> nd then of_int (py_round0 (x * 10 ^ nat nd)) / 10 ^ nat nd
      else of_int (py_round0 (x / 10 ^ nat (- nd))) * 10 ^ nat (- nd))"

section \<open>Observation records and the upsert helper\<close>

text \<open>
  An entry of \<^verbatim>\<open>recent_observations\<close> is a dictionary with the keys \<^verbatim>\<open>name\<close>,
  \<^verbatim>\<open>value\<close> and \<^verbatim>\<open>unit\<close>.
\<close>

record obs =
  obs_name :: string
  obs_value :: real
  obs_unit :: string

text \<open>
  \<^verbatim>\<open>_ensure_filled(obs_list, var_name, unit, value)\<close>: the first entry whose name is
  \<open>var_name\<close> is overwritten and the loop returns; when the loop finds none, an entry is
  appended. The list is mutated in place; the model returns the new list.
\<close>

fun ensure_filled :: "obs list \<Rightarrow> string \<Rightarrow> string \<Rightarrow> real \<Rightarrow> obs list" where
  "ensure_filled [] var_name u v = [\<lparr>obs_name = var_name, obs_value = v, obs_unit = u\<rparr>]"
| "ensure_filled (it # rest) var_name u v =
     (if obs_name it = var_name then it\<lparr>obs_value := v, obs_unit := u\<rparr> # rest
      else it # ensure_filled rest var_name u v)"

section \<open>Statistics of the raw air-quality path\<close>

text \<open>
  An element of the list given to \<^verbatim>\<open>_stats\<close> is \<^verbatim>\<open>None\<close>, the float \<^verbatim>\<open>nan\<close>
  or a number.
\<close>

datatype pyfloat = Float real | NaN

text \<open>
  \<^verbatim>\<open>_p90(values)\<close>: \<^verbatim>\<open>None\<close> on the empty list, else the element of
  \<^verbatim>\<open>sorted(values)\<close> at index \<^verbatim>\<open>int(round(0.9 * (len(arr) - 1)))\<close>.
\<close>

definition p90 :: "real list \<Rightarrow> real option" where
  "p90 vals =
     (if vals = [] then None
      else let arr = sort vals;
               k = py_round0 (0.9 * (real (length arr) - 1))
           in Some (arr ! nat k))"

text \<open>
  \<^verbatim>\<open>a or b\<close> for \<open>a\<close> a float or \<^verbatim>\<open>None\<close>: \<open>b\<close> when \<open>a\<close> is \<^verbatim>\<open>None\<close> or
  zero (both are falsy), else \<open>a\<close>.
\<close>

definition py_or :: "real option \<Rightarrow> real \<Rightarrow> real" where
  "py_or a b = (case a of None \<Rightarrow> b | Some x \<Rightarrow> if x = 0 then b else x)"

record stats_result =
  st_mean :: real
  st_p90 :: real
  st_last :: real

text \<open>
  The comprehension \<^verbatim>\<open>[float(v) for v in values if v is not None and not isnan(float(v))]\<close>.
\<close>

fun clean_values :: "pyfloat option list \<Rightarrow> real list" where
  "clean_values [] = []"
| "clean_values (Some (Float x) # vs) = x # clean_values vs"
| "clean_values (_ # vs) = clean_values vs"

definition stats :: "pyfloat option list \<Rightarrow> stats_result option" where
  "stats vals =
     (if vals = [] then None
      else let clean = clean_values vals
           in if clean = [] then None
              else let mean = sum_list clean / real (length clean)
                   in Some \<lparr>st_mean = py_round mean 3,
                            st_p90 = py_round (py_or (p90 clean) mean) 3,
                            st_last = last clean\<rparr>)"

section \<open>Text formatting\<close>

definition digit_char :: "nat \<Rightarrow> char" where
  "digit_char d = ''0123456789'' ! d"

fun str_nat :: "nat \<Rightarrow> string" where
  "str_nat n = (if n < 10 then [digit_char n] else str_nat (n div 10) @ [digit_char (n mod 10)])"

declare str_nat.simps [simp del]

definition str_int :: "int \<Rightarrow> string" where
  "str_int i = (if i < 0 then ''-'' @ str_nat (nat (- i)) else str_nat (nat i))"

definition zpad :: "nat \<Rightarrow> string \<Rightarrow> string" where
  "zpad w s = replicate (w - length s) (CHR ''0'') @ s"

text \<open>
  The format \<^verbatim>\<open>{x:.4f}\<close>: sign, integer part, a point and four decimals, the exact
  value rounded half to even. (The float \<^verbatim>\<open>-0.0\<close>, printed with a sign by Python, is
  not a real of its own.)
\<close>

definition fmt4 :: "real \<Rightarrow> string" where
  "fmt4 x =
     (let n = nat (py_round0 (\<bar>x\<bar> * 10000))
      in (if x < 0 then ''-'' else []) @ str_nat (n div 10000) @ ''.''
           @ zpad 4 (str_nat (n mod 10000)))"

section \<open>Timestamps\<close>

text \<open>
  A timestamp after \<^verbatim>\<open>parse_date\<close>: an aware \<^verbatim>\<open>datetime\<close> in UTC. Parsing the
  request's text is outside the core; the embedding starts from the parsed value.
\<close>

record datetime =
  dt_year :: nat
  dt_month :: nat
  dt_day :: nat
  dt_hour :: nat
  dt_minute :: nat
  dt_second :: nat
  dt_microsecond :: nat

definition isoformat :: "datetime \<Rightarrow> string" where
  "isoformat d =
     zpad 4 (str_nat (dt_year d)) @ ''-'' @ zpad 2 (str_nat (dt_month d)) @ ''-''
       @ zpad 2 (str_nat (dt_day d)) @ ''T'' @ zpad 2 (str_nat (dt_hour d)) @ '':''
       @ zpad 2 (str_nat (dt_minute d)) @ '':'' @ zpad 2 (str_nat (dt_second d))
       @ (if dt_microsecond d = 0 then [] else ''.'' @ zpad 6 (str_nat (dt_microsecond d)))
       @ ''+00:00''"

text \<open>\<^verbatim>\<open>dt.isoformat().replace("+00:00", "Z")\<close>, on the one offset the text ends with.\<close>

definition isoformat_z :: "datetime \<Rightarrow> string" where
  "isoformat_z d = take (length (isoformat d) - 6) (isoformat d) @ ''Z''"

text \<open>The formats \<^verbatim>\<open>%Y\<close>, \<^verbatim>\<open>%m\<close>, \<^verbatim>\<open>%d\<close>, \<^verbatim>\<open>%Y%m%d\<close> and \<^verbatim>\<open>%H%M%S\<close>.\<close>

definition fmt_Y :: "datetime \<Rightarrow> string" where
  "fmt_Y d = zpad 4 (str_nat (dt_year d))"

definition fmt_m :: "datetime \<Rightarrow> string" where
  "fmt_m d = zpad 2 (str_nat (dt_month d))"

definition fmt_d :: "datetime \<Rightarrow> string" where
  "fmt_d d = zpad 2 (str_nat (dt_day d))"

definition fmt_Ymd :: "datetime \<Rightarrow> string" where
  "fmt_Ymd d = fmt_Y d @ fmt_m d @ fmt_d d"

definition fmt_HMS :: "datetime \<Rightarrow> string" where
  "fmt_HMS d = zpad 2 (str_nat (dt_hour d)) @ zpad 2 (str_nat (dt_minute d))
     @ zpad 2 (str_nat (dt_second d))"

section \<open>The Python runtime and the upstream providers\<close>

text \<open>
  An exception that the HTTP layer (\<^verbatim>\<open>app/utils/http.py\<close>) can raise:
  \<^verbatim>\<open>raise_for_status\<close> raises \<^verbatim>\<open>httpx.HTTPStatusError\<close>, with the status code, on a
  status that is not 2xx; the request itself raises a transport error (connection
  refused, timeout), which is not a subclass of the former; \<^verbatim>\<open>r.json()\<close> raises a
  decoding error on a body that is not JSON.
\<close>

datatype exn = HTTPStatusError nat | TransportError | JSONDecodeError

text \<open>
  What the code takes from the Python runtime and its libraries, as parameters:
  the built-in \<^verbatim>\<open>hash\<close> of a string in the running process, the first
  \<^verbatim>\<open>random()\<close> of \<^verbatim>\<open>random.Random(seed)\<close>, \<^verbatim>\<open>str\<close> of a float and of an
  exception, and the regular-expression scans of the two text parsers, each followed
  by \<^verbatim>\<open>float\<close>.
\<close>

record pylib =
  py_hash :: "string \<Rightarrow> int"
  rnd_random :: "int \<Rightarrow> real"
  float_str :: "real \<Rightarrow> string"
  exn_str :: "exn \<Rightarrow> string"
  re_search_var :: "string \<Rightarrow> string \<Rightarrow> real option"
  re_findall_precip :: "string \<Rightarrow> real list"
  re_findall_numbers :: "string \<Rightarrow> real list"

text \<open>
  A character outside ASCII in a string literal of the source is written by an ASCII
  stand-in: an accented letter without its accent, the arrow as \<^verbatim>\<open>->\<close>, the degree
  sign as \<^verbatim>\<open>deg\<close>.
\<close>

record DataSource =
  ds_name :: string
  ds_url :: string
  ds_note :: "string option"
  ds_auth_required :: bool

text \<open>The credentials of \<^verbatim>\<open>app/core/config.py\<close>; each may be unset.\<close>

record settings =
  earthdata_username :: "string option"
  earthdata_password :: "string option"
  openaq_api_key :: "string option"
  airnow_api_key :: "string option"

text \<open>The truth value of a text that may be \<^verbatim>\<open>None\<close>: set and not empty.\<close>

definition truthy :: "string option \<Rightarrow> bool" where
  "truthy s = (case s of None \<Rightarrow> False | Some t \<Rightarrow> t \<noteq> [])"

type_synonym auth = "(string \<times> string) option"
type_synonym headers = "(string \<times> string) list"

text \<open>
  The documents of the OpenAQ v3 API, in the shape the adapter reads them: the
  identifiers of the locations found, the sensors of each location of a detail
  document, and the rows of a latest document. A key that is missing or \<^verbatim>\<open>null\<close> is
  \<open>None\<close>.
\<close>

record oaq_sensor =
  sensor_id :: "int option"
  param_name :: "string option"
  param_units :: "string option"
  param_display :: "string option"

record oaq_latest =
  sensorsId :: "int option"
  latest_value :: "real option"

text \<open>
  The HTTP layer, as parameters: \<^verbatim>\<open>get_text\<close> of a URL with its basic-auth pair, and
  \<^verbatim>\<open>get_json\<close> at each of the four document types it is called for. Each returns the
  body or the exception that the call raises.
\<close>

record upstream =
  get_text :: "string \<Rightarrow> auth \<Rightarrow> exn + string"
  get_json_locations :: "string \<Rightarrow> headers \<Rightarrow> exn + int option list"
  get_json_detail :: "string \<Rightarrow> headers \<Rightarrow> exn + oaq_sensor list list"
  get_json_latest :: "string \<Rightarrow> headers \<Rightarrow> exn + oaq_latest list"
  get_json_airnow :: "string \<Rightarrow> exn + string"

text \<open>\<^verbatim>\<open>x = await f(...)\<close> followed by the rest: an exception of \<open>f\<close> leaves the caller.\<close>

definition await :: "exn + 'a \<Rightarrow> ('a \<Rightarrow> exn + 'b) \<Rightarrow> exn + 'b" where
  "await r k = (case r of Inl e \<Rightarrow> Inl e | Inr x \<Rightarrow> k x)"

section \<open>The MERRA-2 adapter\<close>

definition m2_idx_lat :: "real \<Rightarrow> int" where
  "m2_idx_lat lat = py_round0 ((lat + 90.0) / 0.5)"

definition m2_idx_lon :: "real \<Rightarrow> int" where
  "m2_idx_lon lon = py_round0 ((lon + 180.0) / 0.625)"

definition m2_time_idx :: "datetime \<Rightarrow> int" where
  "m2_time_idx d = int (dt_hour d)"

definition m2_stream_for_year :: "nat \<Rightarrow> string" where
  "m2_stream_for_year year = ''400''"

definition merra2_ascii_url :: "datetime \<Rightarrow> string" where
  "merra2_ascii_url d =
     (let stream = m2_stream_for_year (dt_year d)
      in ''https://goldsmr4.gesdisc.eosdis.nasa.gov/opendap/MERRA2/''
           @ ''M2T1NXSLV.5.12.4/''
           @ fmt_Y d @ ''/'' @ fmt_m d @ ''/MERRA2_'' @ stream @ ''.tavg1_2d_slv_Nx.''
           @ fmt_Ymd d @ ''.nc4.ascii'')"

text \<open>
  The block shared by both grid adapters: \<^verbatim>\<open>auth\<close> is the pair when both
  credentials are set, else \<^verbatim>\<open>None\<close>.
\<close>

definition earthdata_auth :: "settings \<Rightarrow> auth" where
  "earthdata_auth S =
     (if truthy (earthdata_username S) \<and> truthy (earthdata_password S)
      then Some (the (earthdata_username S), the (earthdata_password S)) else None)"

text \<open>The index pair \<open>(j, i)\<close> of \<^verbatim>\<open>_fetch_m2_scalar\<close> after its two clamping lines.\<close>

definition m2_cell :: "real \<Rightarrow> real \<Rightarrow> int \<times> int" where
  "m2_cell lat lon =
     (let j = m2_idx_lat lat; i = m2_idx_lon lon;
          j = max 0 (min 360 j);
          i = max 0 (min 575 i)
      in (j, i))"

text \<open>The subset text \<^verbatim>\<open>[a:b]\<close>.\<close>

definition idx_range :: "int \<Rightarrow> int \<Rightarrow> string" where
  "idx_range a b = ''['' @ str_int a @ '':'' @ str_int b @ '']''"

definition fetch_m2_scalar ::
  "pylib \<Rightarrow> settings \<Rightarrow> upstream \<Rightarrow> string \<Rightarrow> real \<Rightarrow> real \<Rightarrow> datetime
     \<Rightarrow> exn + (real option \<times> DataSource)" where
  "fetch_m2_scalar L S U var lat lon d =
     (let url_base = merra2_ascii_url d;
          t = m2_time_idx d;
          (j, i) = m2_cell lat lon;
          url = url_base @ ''?'' @ var @ idx_range t t @ idx_range j j @ idx_range i i;
          auth = earthdata_auth S
      in case get_text U url auth of
           Inr txt \<Rightarrow>
             (case re_search_var L var txt of
                None \<Rightarrow>
                  Inr (None, \<lparr>ds_name = ''MERRA-2 '' @ var @ '' (ascii subset)'', ds_url = url,
                    ds_note = Some ''Sin valor (subsetting vacio o indice fuera de rango)'',
                    ds_auth_required = True\<rparr>)
              | Some val \<Rightarrow>
                  Inr (Some val, \<lparr>ds_name = ''MERRA-2 '' @ var, ds_url = url,
                    ds_note = Some ''OPeNDAP subset .ascii'', ds_auth_required = True\<rparr>))
         | Inl e \<Rightarrow>
             Inr (None, \<lparr>ds_name = ''MERRA-2 '' @ var @ '' (error)'', ds_url = url,
               ds_note = Some ''Fallo OPeNDAP/credenciales'', ds_auth_required = True\<rparr>))"

definition fetch_t2m_c ::
  "pylib \<Rightarrow> settings \<Rightarrow> upstream \<Rightarrow> real \<Rightarrow> real \<Rightarrow> datetime
     \<Rightarrow> exn + (real option \<times> DataSource)" where
  "fetch_t2m_c L S U lat lon d =
     await (fetch_m2_scalar L S U ''T2M'' lat lon d) (\<lambda>(v, src).
       case v of None \<Rightarrow> Inr (None, src) | Some k \<Rightarrow> Inr (Some (k - 273.15), src))"

definition fetch_rh2m ::
  "pylib \<Rightarrow> settings \<Rightarrow> upstream \<Rightarrow> real \<Rightarrow> real \<Rightarrow> datetime
     \<Rightarrow> exn + (real option \<times> DataSource)" where
  "fetch_rh2m L S U lat lon d = fetch_m2_scalar L S U ''RH2M'' lat lon d"

definition fetch_ts_c ::
  "pylib \<Rightarrow> settings \<Rightarrow> upstream \<Rightarrow> real \<Rightarrow> real \<Rightarrow> datetime
     \<Rightarrow> exn + (real option \<times> DataSource)" where
  "fetch_ts_c L S U lat lon d =
     await (fetch_m2_scalar L S U ''TS'' lat lon d) (\<lambda>(v, src).
       case v of None \<Rightarrow> Inr (None, src) | Some k \<Rightarrow> Inr (Some (k - 273.15), src))"

definition fetch_wind10m ::
  "pylib \<Rightarrow> settings \<Rightarrow> upstream \<Rightarrow> real \<Rightarrow> real \<Rightarrow> datetime
     \<Rightarrow> exn + (real option \<times> DataSource list)" where
  "fetch_wind10m L S U lat lon d =
     await (fetch_m2_scalar L S U ''U10M'' lat lon d) (\<lambda>(u, src_u).
     await (fetch_m2_scalar L S U ''V10M'' lat lon d) (\<lambda>(v, src_v).
       case (u, v) of
         (Some u', Some v') \<Rightarrow> Inr (Some (sqrt (u' * u' + v' * v')), [src_u, src_v])
       | _ \<Rightarrow> Inr (None, [src_u, src_v])))"

section \<open>The IMERG adapter\<close>

definition imerg_idx_lat :: "real \<Rightarrow> int" where
  "imerg_idx_lat lat = py_round0 ((lat + 90.0) * 10.0)"

definition imerg_idx_lon :: "real \<Rightarrow> int" where
  "imerg_idx_lon lon = py_round0 ((lon + 180.0) * 10.0)"

text \<open>
  \<^verbatim>\<open>_half_hour_window\<close>: the start is the time with the minute set to 0 or 30 and the
  second and microsecond to 0; the end is 29 minutes and 59 seconds later, which stays
  within the hour.
\<close>

definition half_hour_window :: "datetime \<Rightarrow> datetime \<times> datetime" where
  "half_hour_window d =
     (let minute = (if dt_minute d < 30 then 0 else 30);
          start = d\<lparr>dt_minute := minute, dt_second := 0, dt_microsecond := 0\<rparr>;
          end' = start\<lparr>dt_minute := minute + 29, dt_second := 59\<rparr>
      in (start, end'))"

definition imerg_granule_name :: "datetime \<Rightarrow> string" where
  "imerg_granule_name d =
     (let (s, e) = half_hour_window d
      in ''3B-HHR-L.MS.MRG.3IMERG.'' @ fmt_Ymd d @ ''-S'' @ fmt_HMS s @ ''-E'' @ fmt_HMS e
           @ ''.V07B.HDF5'')"

definition build_imerg_ascii_url :: "datetime \<Rightarrow> string" where
  "build_imerg_ascii_url d =
     (let coll = ''GPM_3IMERGHH.07''; fname = imerg_granule_name d
      in ''https://gpm1.gesdisc.eosdis.nasa.gov/opendap/GPM_L3/'' @ coll @ ''/''
           @ fmt_Y d @ ''/'' @ fmt_m d @ ''/'' @ fmt_d d @ ''/'' @ fname @ ''.ascii'')"

text \<open>
  The window \<open>(y0, y1, x0, x1)\<close> of \<^verbatim>\<open>fetch_imerg_rate_mm_per_hr\<close>:
  \<^verbatim>\<open>y0, y1 = max(0, iy - radius_cells), min(1799, iy + radius_cells)\<close> and the same for
  the columns with 3599.
\<close>

definition imerg_window :: "real \<Rightarrow> real \<Rightarrow> int \<Rightarrow> int \<times> int \<times> int \<times> int" where
  "imerg_window lat lon radius_cells =
     (let iy = imerg_idx_lat lat; ix = imerg_idx_lon lon;
          y0 = max 0 (iy - radius_cells); y1 = min 1799 (iy + radius_cells);
          x0 = max 0 (ix - radius_cells); x1 = min 3599 (ix + radius_cells)
      in (y0, y1, x0, x1))"

text \<open>
  \<^verbatim>\<open>txt.split(sep)[-1]\<close> when \<open>sep\<close> occurs in \<open>txt\<close>: the text after the last
  occurrence.
\<close>

fun after_last :: "string \<Rightarrow> string \<Rightarrow> string option" where
  "after_last sep [] = (if sep = [] then Some [] else None)"
| "after_last sep (c # cs) =
     (case after_last sep cs of
        Some r \<Rightarrow> Some r
      | None \<Rightarrow> if take (length sep) (c # cs) = sep then Some (drop (length sep) (c # cs))
                else None)"

definition data_body :: "string \<Rightarrow> string" where
  "data_body txt = (case after_last ''Data:'' txt of Some b \<Rightarrow> b | None \<Rightarrow> txt)"

definition fetch_imerg_rate_mm_per_hr ::
  "pylib \<Rightarrow> settings \<Rightarrow> upstream \<Rightarrow> real \<Rightarrow> real \<Rightarrow> datetime \<Rightarrow> int
     \<Rightarrow> exn + (real option \<times> DataSource)" where
  "fetch_imerg_rate_mm_per_hr L S U lat lon d radius_cells =
     (let url_base = build_imerg_ascii_url d;
          (y0, y1, x0, x1) = imerg_window lat lon radius_cells;
          q = ''?precipitationCal'' @ idx_range y0 y1 @ idx_range x0 x1;
          url = url_base @ q;
          auth = earthdata_auth S
      in case get_text U url auth of
           Inr txt \<Rightarrow>
             (let vals = re_findall_precip L txt;
                  vals = (if vals = [] then re_findall_numbers L (data_body txt) else vals)
              in if vals = []
                 then Inr (None, \<lparr>ds_name = ''IMERG (ascii subset)'', ds_url = url,
                        ds_note = Some ''Sin datos en pixel'', ds_auth_required = True\<rparr>)
                 else Inr (Some (sum_list vals / real (length vals)),
                        \<lparr>ds_name = ''IMERG precipitationCal (mm/h)'', ds_url = url,
                         ds_note = Some ''OPeNDAP subset .ascii'', ds_auth_required = True\<rparr>))
         | Inl ex \<Rightarrow>
             Inr (None, \<lparr>ds_name = ''IMERG (error)'', ds_url = url,
               ds_note = Some (''Fallo OPeNDAP/credenciales: '' @ exn_str L ex),
               ds_auth_required = True\<rparr>))"

section \<open>The OpenAQ and AirNow adapters\<close>

text \<open>\<^verbatim>\<open>int(x)\<close> of a float truncates towards zero.\<close>

definition py_int :: "real \<Rightarrow> int" where
  "py_int x = (if 0 \<le> x then \<lfloor>x\<rfloor> else \<lceil>x\<rceil>)"

text \<open>\<^verbatim>\<open>str.lower\<close> and \<^verbatim>\<open>str.upper\<close> on ASCII text.\<close>

definition lower_char :: "char \<Rightarrow> char" where
  "lower_char c =
     (let n = (of_char c :: nat) in if 65 \<le> n \<and> n \<le> 90 then char_of (n + 32) else c)"

definition upper_char :: "char \<Rightarrow> char" where
  "upper_char c =
     (let n = (of_char c :: nat) in if 97 \<le> n \<and> n \<le> 122 then char_of (n - 32) else c)"

definition py_lower :: "string \<Rightarrow> string" where
  "py_lower s = map lower_char s"

definition py_upper :: "string \<Rightarrow> string" where
  "py_upper s = map upper_char s"

text \<open>\<^verbatim>\<open>f"{loc_id}"\<close> for an identifier that may be \<^verbatim>\<open>None\<close>.\<close>

definition str_opt_int :: "int option \<Rightarrow> string" where
  "str_opt_int i = (case i of None \<Rightarrow> ''None'' | Some n \<Rightarrow> str_int n)"

definition oaq_headers :: "settings \<Rightarrow> headers" where
  "oaq_headers S =
     (if truthy (openaq_api_key S) then [(''X-API-Key'', the (openaq_api_key S))] else [])"

record sensor_meta =
  meta_name :: string
  meta_units :: "string option"
  meta_display :: "string option"

text \<open>An observation of the payload; its unit is the sensor's, which may be missing.\<close>

record oaq_obs =
  oaq_name :: string
  oaq_value :: real
  oaq_unit :: "string option"

text \<open>
  The first component of the adapter's result: the dictionary with the key
  \<^verbatim>\<open>error\<close>, with the key \<^verbatim>\<open>warning\<close>, or with \<^verbatim>\<open>location_id\<close> and
  \<^verbatim>\<open>observations\<close>.
\<close>

datatype oaq_payload =
    OaqError string
  | OaqWarning string
  | OaqObservations "int option" "oaq_obs list"

text \<open>The loop that fills \<^verbatim>\<open>sensor_map\<close>; a later sensor with the same id overwrites.\<close>

definition sensor_map_of :: "oaq_sensor list \<Rightarrow> (int \<rightharpoonup> sensor_meta)" where
  "sensor_map_of sensors =
     fold (\<lambda>s m. case sensor_id s of
                    None \<Rightarrow> m
                  | Some sid \<Rightarrow>
                      m(sid \<mapsto> \<lparr>meta_name = py_lower (case param_name s of None \<Rightarrow> [] | Some n \<Rightarrow> n),
                                 meta_units = param_units s,
                                 meta_display = param_display s\<rparr>))
          sensors Map.empty"

text \<open>The loop over the rows of the latest document.\<close>

fun latest_observations ::
  "(int \<rightharpoonup> sensor_meta) \<Rightarrow> string list \<Rightarrow> oaq_latest list \<Rightarrow> oaq_obs list" where
  "latest_observations sensor_map wanted [] = []"
| "latest_observations sensor_map wanted (r # rs) =
     (case sensorsId r of
        None \<Rightarrow> latest_observations sensor_map wanted rs
      | Some sid \<Rightarrow>
          (case sensor_map sid of
             None \<Rightarrow> latest_observations sensor_map wanted rs
           | Some meta \<Rightarrow>
               (let pname = meta_name meta; units = meta_units meta
                in case latest_value r of
                     None \<Rightarrow> latest_observations sensor_map wanted rs
                   | Some val \<Rightarrow>
                       if pname \<in> set wanted
                       then (let (val, units) =
                                   (if pname \<in> {''no2'', ''o3''} \<and> units = Some ''ppm''
                                    then (val * 1000.0, Some ''ppb'') else (val, units));
                                 out_name = (if pname = ''pm25'' then ''PM2.5'' else py_upper pname)
                             in \<lparr>oaq_name = out_name, oaq_value = val, oaq_unit = units\<rparr>
                                  # latest_observations sensor_map wanted rs)
                       else latest_observations sensor_map wanted rs)))"

text \<open>
  \<^verbatim>\<open>openaq_latest_nearby_values\<close>. Each of the three \<^verbatim>\<open>get_json\<close> calls stands in a
  \<^verbatim>\<open>try\<close> whose only handler is \<^verbatim>\<open>except httpx.HTTPStatusError\<close>: that exception
  becomes an error payload, every other one leaves the function.
\<close>

definition openaq_latest_nearby_values ::
  "pylib \<Rightarrow> settings \<Rightarrow> upstream \<Rightarrow> real \<Rightarrow> real \<Rightarrow> real \<Rightarrow> string list
     \<Rightarrow> exn + (oaq_payload \<times> DataSource)" where
  "openaq_latest_nearby_values L S U lat lon radius_km wanted =
     (let meters = py_int (radius_km * 1000);
          h = oaq_headers S;
          note = ''OpenAQ v3 locations->latest'';
          locs_url = ''https://api.openaq.org/v3/locations?''
            @ ''coordinates='' @ float_str L lat @ '','' @ float_str L lon @ ''&radius='' @ str_int meters
            @ ''&limit=1&order_by=distance&sort=asc''
      in case get_json_locations U locs_url h of
           Inl (HTTPStatusError code) \<Rightarrow>
             Inr (OaqError (''OpenAQ '' @ str_nat code),
                  \<lparr>ds_name = ''OpenAQ v3 (error)'', ds_url = locs_url, ds_note = Some note,
                   ds_auth_required = True\<rparr>)
         | Inl e \<Rightarrow> Inl e
         | Inr locs_res \<Rightarrow>
             (case locs_res of
                [] \<Rightarrow>
                  Inr (OaqWarning ''No nearby OpenAQ locations'',
                       \<lparr>ds_name = ''OpenAQ locations'', ds_url = locs_url, ds_note = Some note,
                        ds_auth_required = True\<rparr>)
              | loc_id # _ \<Rightarrow>
                  (let loc_detail_url = ''https://api.openaq.org/v3/locations/'' @ str_opt_int loc_id
                   in case get_json_detail U loc_detail_url h of
                        Inl (HTTPStatusError code) \<Rightarrow>
                          Inr (OaqError (''OpenAQ '' @ str_nat code),
                               \<lparr>ds_name = ''OpenAQ v3 (error)'', ds_url = loc_detail_url,
                                ds_note = Some note, ds_auth_required = True\<rparr>)
                      | Inl e \<Rightarrow> Inl e
                      | Inr loc_detail \<Rightarrow>
                          (let loc_detail_res = (case loc_detail of [] \<Rightarrow> [] | sensors # _ \<Rightarrow> sensors);
                               sensor_map = sensor_map_of loc_detail_res;
                               latest_url = ''https://api.openaq.org/v3/locations/''
                                 @ str_opt_int loc_id @ ''/latest''
                           in case get_json_latest U latest_url h of
                                Inl (HTTPStatusError code) \<Rightarrow>
                                  Inr (OaqError (''OpenAQ '' @ str_nat code),
                                       \<lparr>ds_name = ''OpenAQ v3 (error)'', ds_url = latest_url,
                                        ds_note = Some note, ds_auth_required = True\<rparr>)
                              | Inl e \<Rightarrow> Inl e
                              | Inr latest \<Rightarrow>
                                  Inr (OaqObservations loc_id
                                         (latest_observations sensor_map wanted latest),
                                       \<lparr>ds_name = ''OpenAQ latest by location (v3)'',
                                        ds_url = latest_url, ds_note = Some note,
                                        ds_auth_required = True\<rparr>)))))"

datatype airnow_payload = AirNowWarning string | AirNowError string | AirNowData string

definition airnow_nearby ::
  "pylib \<Rightarrow> settings \<Rightarrow> upstream \<Rightarrow> real \<Rightarrow> real \<Rightarrow> real
     \<Rightarrow> exn + (airnow_payload \<times> DataSource)" where
  "airnow_nearby L S U lat lon distance_miles =
     (if \<not> truthy (airnow_api_key S)
      then Inr (AirNowWarning ''AIRNOW_API_KEY not set'',
                \<lparr>ds_name = ''AirNow observations'',
                 ds_url = ''https://www.airnowapi.org/aq/observation/latLong/current/''
                   @ ''?format=application/json&latitude=..&longitude=..&distance=..&API_KEY=<REQUIRED>'',
                 ds_note = Some ''Requiere API key.'', ds_auth_required = True\<rparr>)
      else
        (let url = ''https://www.airnowapi.org/aq/observation/latLong/current/''
               @ ''?format=application/json&latitude='' @ float_str L lat
               @ ''&longitude='' @ float_str L lon @ ''&distance='' @ float_str L distance_miles
               @ ''&API_KEY='' @ the (airnow_api_key S)
         in case get_json_airnow U url of
              Inr data \<Rightarrow>
                Inr (AirNowData data,
                     \<lparr>ds_name = ''AirNow observations'', ds_url = url,
                      ds_note = Some ''Requiere API key.'', ds_auth_required = True\<rparr>)
            | Inl (HTTPStatusError code) \<Rightarrow>
                Inr (AirNowError (''AirNow '' @ str_nat code),
                     \<lparr>ds_name = ''AirNow (error)'', ds_url = url,
                      ds_note = Some ''Verifica API key y parametros.'', ds_auth_required = True\<rparr>)
            | Inl e \<Rightarrow> Inl e))"

section \<open>The deterministic synthetic value generator\<close>

text \<open>
  \<^verbatim>\<open>_seed_from\<close>: \<^verbatim>\<open>abs(hash(s)) % (2**31 - 1)\<close> for the text
  \<^verbatim>\<open>f"{lat:.4f},{lon:.4f}|{dt_iso}|{var}"\<close>.
\<close>

definition seed_from :: "pylib \<Rightarrow> real \<Rightarrow> real \<Rightarrow> string \<Rightarrow> string \<Rightarrow> int" where
  "seed_from L lat lon dt_iso var =
     \<bar>py_hash L (fmt4 lat @ '','' @ fmt4 lon @ ''|'' @ dt_iso @ ''|'' @ var)\<bar> mod (2 ^ 31 - 1)"

text \<open>\<^verbatim>\<open>Random.uniform(a, b)\<close> is \<^verbatim>\<open>a + (b - a) * self.random()\<close>.\<close>

definition uniform :: "real \<Rightarrow> real \<Rightarrow> real \<Rightarrow> real" where
  "uniform r a b = a + (b - a) * r"

definition fake_uniform ::
  "pylib \<Rightarrow> real \<Rightarrow> real \<Rightarrow> string \<Rightarrow> string \<Rightarrow> real \<Rightarrow> real \<Rightarrow> int \<Rightarrow> real" where
  "fake_uniform L lat lon dt_iso var lo hi decimals =
     (let val = uniform (rnd_random L (seed_from L lat lon dt_iso var)) lo hi
      in py_round val decimals)"

section \<open>Requests and the predict-mode responses\<close>

record Location =
  loc_lat :: real
  loc_lon :: real

datatype output_mode = Raw | Predict

text \<open>
  \<^verbatim>\<open>BaseDataQuery\<close> and its subclasses. The field \<open>q_when\<close> holds the timestamp that
  \<^verbatim>\<open>parse_date(q.when)\<close> returns; the adapters, which parse the same text again, get
  the same value.
\<close>

record base_query =
  q_location :: Location
  q_when :: datetime
  q_radius_km :: "real option"
  q_location_name :: "string option"
  q_output_mode :: output_mode

record precip_query = base_query +
  pq_hours_back :: int
  pq_hours_fwd :: int

record temperature_query = base_query +
  tq_days_back :: int
  tq_days_fwd :: int

record wind_query = base_query +
  wq_hours_back :: int
  wq_hours_fwd :: int

record time_block =
  datetime_iso :: string
  horizon_hours :: int

text \<open>
  The dictionary that a predict branch returns. \<open>extra_unit\<close>, \<open>extra_notes\<close> and
  \<open>faker_filled\<close> are the keys of \<^verbatim>\<open>extra_context\<close> (\<open>extra_notes\<close> is \<^verbatim>\<open>notes\<close>); \<open>sources\<close> is the key
  \<^verbatim>\<open>_sources\<close>.
\<close>

record predict_body =
  location_name :: string
  point :: Location
  time_info :: time_block
  recent_observations :: "obs list"
  extra_unit :: "string option"
  extra_notes :: string
  faker_filled :: "string list"
  sources :: "DataSource list option"

definition predict_time_block :: "datetime \<Rightarrow> int \<Rightarrow> time_block" where
  "predict_time_block d h = \<lparr>datetime_iso = isoformat_z d, horizon_hours = h\<rparr>"

definition predict_point :: "Location \<Rightarrow> Location" where
  "predict_point loc = \<lparr>loc_lat = loc_lat loc, loc_lon = loc_lon loc\<rparr>"

text \<open>\<^verbatim>\<open>q.location_name or "Unknown"\<close>.\<close>

definition name_or_unknown :: "string option \<Rightarrow> string" where
  "name_or_unknown n = (if truthy n then the n else ''Unknown'')"

text \<open>
  The synthetic rain of \<^verbatim>\<open>precipitation_data\<close>: two draws in \<open>[0, 1]\<close> at three
  decimals, their product times 12 at two decimals.
\<close>

definition fake_rain :: "pylib \<Rightarrow> real \<Rightarrow> real \<Rightarrow> string \<Rightarrow> real" where
  "fake_rain L lat lon dt_iso =
     (let u1 = fake_uniform L lat lon dt_iso ''imerg_rate_u1'' 0.0 1.0 3;
          u2 = fake_uniform L lat lon dt_iso ''imerg_rate_u2'' 0.0 1.0 3
      in py_round ((u1 * u2) * 12.0) 2)"

text \<open>The predict branch of \<^verbatim>\<open>precipitation_data\<close>.\<close>

definition precipitation_predict ::
  "pylib \<Rightarrow> settings \<Rightarrow> upstream \<Rightarrow> 'a precip_query_scheme \<Rightarrow> exn + predict_body" where
  "precipitation_predict L S U q =
     (let d = q_when q; dt_iso = isoformat d;
          lat = loc_lat (q_location q); lon = loc_lon (q_location q)
      in await (fetch_imerg_rate_mm_per_hr L S U lat lon d 0) (\<lambda>(imerg_val, imerg_src).
         let (imerg_val, faker_filled) =
               (case imerg_val of
                  None \<Rightarrow> (fake_rain L lat lon dt_iso, [''imerg_rate''])
                | Some v \<Rightarrow> (v, []))
         in await (fetch_rh2m L S U lat lon d) (\<lambda>(rh2m, rh_src).
         let (rh2m, faker_filled) =
               (case rh2m of
                  None \<Rightarrow> (fake_uniform L lat lon dt_iso ''humidity'' 35 95 0,
                            faker_filled @ [''humidity''])
                | Some v \<Rightarrow> (v, faker_filled))
         in await (fetch_ts_c L S U lat lon d) (\<lambda>(ts_c, ts_src).
         let (ts_c, faker_filled) =
               (case ts_c of
                  None \<Rightarrow> (fake_uniform L lat lon dt_iso ''skin_temp'' 5 35 1,
                            faker_filled @ [''skin_temp''])
                | Some v \<Rightarrow> (v, faker_filled));
             ro = [\<lparr>obs_name = ''imerg_rate'', obs_value = imerg_val, obs_unit = ''mm/h''\<rparr>,
                   \<lparr>obs_name = ''humidity'', obs_value = rh2m, obs_unit = ''%''\<rparr>,
                   \<lparr>obs_name = ''skin_temp'', obs_value = ts_c, obs_unit = ''degC''\<rparr>]
         in Inr \<lparr>location_name = name_or_unknown (q_location_name q),
                 point = predict_point (q_location q),
                 time_info = predict_time_block d (max (pq_hours_fwd q) 24),
                 recent_observations = ro,
                 extra_unit = Some ''mm or %'',
                 extra_notes = ''IMERG V07 + MERRA-2 (con fallback si faltan datos)'',
                 faker_filled = faker_filled,
                 sources = Some [imerg_src, rh_src, ts_src]\<rparr>))))"

text \<open>The predict branch of \<^verbatim>\<open>temperature_data\<close>.\<close>

definition temperature_predict ::
  "pylib \<Rightarrow> settings \<Rightarrow> upstream \<Rightarrow> 'a temperature_query_scheme \<Rightarrow> exn + predict_body" where
  "temperature_predict L S U q =
     (let d = q_when q; dt_iso = isoformat d;
          lat = loc_lat (q_location q); lon = loc_lon (q_location q)
      in await (fetch_t2m_c L S U lat lon d) (\<lambda>(t2m_c, src_t).
         let (t2m_c, faker_filled) =
               (case t2m_c of
                  None \<Rightarrow> (fake_uniform L lat lon dt_iso ''temperature'' (- 5) 38 1,
                            [''temperature''])
                | Some v \<Rightarrow> (v, []))
         in await (fetch_rh2m L S U lat lon d) (\<lambda>(rh2m, src_rh).
         let (rh2m, faker_filled) =
               (case rh2m of
                  None \<Rightarrow> (fake_uniform L lat lon dt_iso ''humidity'' 20 95 0,
                            faker_filled @ [''humidity''])
                | Some v \<Rightarrow> (v, faker_filled));
             tmax_24h = py_round (t2m_c + fake_uniform L lat lon dt_iso ''tmax_boost'' 0.5 6.5 1) 1;
             tmin_24h = py_round (t2m_c - fake_uniform L lat lon dt_iso ''tmin_boost'' 0.5 7.0 1) 1;
             cloud_cover = fake_uniform L lat lon dt_iso ''cloud_cover'' 5 95 0;
             ro = [\<lparr>obs_name = ''temperature'', obs_value = t2m_c, obs_unit = ''degC''\<rparr>,
                   \<lparr>obs_name = ''humidity'', obs_value = rh2m, obs_unit = ''%''\<rparr>,
                   \<lparr>obs_name = ''t_max_24h'', obs_value = tmax_24h, obs_unit = ''degC''\<rparr>,
                   \<lparr>obs_name = ''t_min_24h'', obs_value = tmin_24h, obs_unit = ''degC''\<rparr>,
                   \<lparr>obs_name = ''cloud_cover'', obs_value = cloud_cover, obs_unit = ''%''\<rparr>]
         in Inr \<lparr>location_name = name_or_unknown (q_location_name q),
                 point = predict_point (q_location q),
                 time_info = predict_time_block d 72,
                 recent_observations = ro,
                 extra_unit = None,
                 extra_notes = ''MERRA-2 T2M/RH2M (con fallback y tmax/tmin fake)'',
                 faker_filled = faker_filled,
                 sources = Some [src_t, src_rh]\<rparr>)))"

text \<open>The predict branch of \<^verbatim>\<open>wind_data\<close>.\<close>

definition wind_predict ::
  "pylib \<Rightarrow> settings \<Rightarrow> upstream \<Rightarrow> 'a wind_query_scheme \<Rightarrow> exn + predict_body" where
  "wind_predict L S U q =
     (let d = q_when q; dt_iso = isoformat d;
          lat = loc_lat (q_location q); lon = loc_lon (q_location q)
      in await (fetch_wind10m L S U lat lon d) (\<lambda>(w_mps, src_uv).
         let (wind_speed_kmh, gust_kmh, faker_filled) =
               (case w_mps of
                  None \<Rightarrow>
                    (let fake_kmh = fake_uniform L lat lon dt_iso ''wind_speed'' 2 70 1;
                         gust_kmh = py_round
                           (fake_kmh * fake_uniform L lat lon dt_iso ''gust_factor'' 1.3 1.8 2) 1
                     in (fake_kmh, gust_kmh, [''wind_speed'', ''wind_gust'']))
                | Some w \<Rightarrow>
                    (let wind_speed_kmh = py_round (w * 3.6) 1;
                         gust_kmh = py_round (wind_speed_kmh * 1.5) 1
                     in (wind_speed_kmh, gust_kmh, [])));
             wind_dir = fake_uniform L lat lon dt_iso ''wind_dir'' 0 360 0;
             pressure_hpa = fake_uniform L lat lon dt_iso ''pressure'' 800 1020 0;
             ro = [\<lparr>obs_name = ''wind_speed'', obs_value = wind_speed_kmh, obs_unit = ''km/h''\<rparr>,
                   \<lparr>obs_name = ''wind_gust'', obs_value = gust_kmh, obs_unit = ''km/h''\<rparr>,
                   \<lparr>obs_name = ''wind_dir'', obs_value = wind_dir, obs_unit = ''deg''\<rparr>,
                   \<lparr>obs_name = ''pressure'', obs_value = pressure_hpa, obs_unit = ''hPa''\<rparr>]
         in Inr \<lparr>location_name = name_or_unknown (q_location_name q),
                 point = predict_point (q_location q),
                 time_info = predict_time_block d (max (wq_hours_fwd q) 48),
                 recent_observations = ro,
                 extra_unit = None,
                 extra_notes = ''MERRA-2 U10M/V10M (con fallback para velocidad/racha/dir/presion)'',
                 faker_filled = faker_filled,
                 sources = Some src_uv\<rparr>))"

section \<open>The ranges of the synthetic values\<close>

text \<open>The least-significant unit of \<^verbatim>\<open>round(x, nd)\<close>: ten to the power \<open>- nd\<close>.\<close>

definition round_unit :: "int \<Rightarrow> real" where
  "round_unit nd = (if 0 \<le> nd then 1 / 10 ^ nat nd else 10 ^ nat (- nd))"

text \<open>
  The variable name, the bounds and the decimals of every call of \<^verbatim>\<open>_fake_uniform\<close> in
  \<^verbatim>\<open>app/routers/data.py\<close>, in the order of the file.
\<close>

definition declared_ranges :: "(string \<times> real \<times> real \<times> int) list" where
  "declared_ranges =
     [(''PM2.5'', 5, 120, 1), (''NO2'', 5, 100, 0), (''O3'', 10, 120, 0),
      (''imerg_rate_u1'', 0.0, 1.0, 3), (''imerg_rate_u2'', 0.0, 1.0, 3),
      (''humidity'', 35, 95, 0), (''skin_temp'', 5, 35, 1),
      (''temperature'', - 5, 38, 1), (''humidity'', 20, 95, 0),
      (''tmax_boost'', 0.5, 6.5, 1), (''tmin_boost'', 0.5, 7.0, 1), (''cloud_cover'', 5, 95, 0),
      (''wind_speed'', 2, 70, 1), (''gust_factor'', 1.3, 1.8, 2),
      (''wind_dir'', 0, 360, 0), (''pressure'', 800, 1020, 0)]"

section \<open>Sample runtimes, upstreams and requests\<close>

text \<open>
  A runtime whose generator always draws one half and whose scanner finds 273.15 for
  \<^verbatim>\<open>T2M\<close>, 6 for \<^verbatim>\<open>U10M\<close> and 8 for \<^verbatim>\<open>V10M\<close> in any answer.
\<close>

definition sample_lib :: pylib where
  "sample_lib =
     \<lparr>py_hash = (\<lambda>s. int (length s)),
      rnd_random = (\<lambda>seed. 1 / 2),
      float_str = (\<lambda>x. str_int \<lfloor>x\<rfloor>),
      exn_str = (\<lambda>e. ''upstream failure''),
      re_search_var = (\<lambda>var txt.
         if var = ''T2M'' then Some 273.15
         else if var = ''U10M'' then Some 6
         else if var = ''V10M'' then Some 8
         else None),
      re_findall_precip = (\<lambda>txt. []),
      re_findall_numbers = (\<lambda>txt. [])\<rparr>"

text \<open>
  Two runs of the interpreter: the built-in hash of a string is salted anew at every
  start, so the same text hashes to 12 in one run and to 17 in the other. The generator
  is the same function of the seed in both.
\<close>

definition process_a :: pylib where
  "process_a = sample_lib\<lparr>py_hash := (\<lambda>s. 12), rnd_random := (\<lambda>seed. of_int (seed mod 10) / 10)\<rparr>"

definition process_b :: pylib where
  "process_b = sample_lib\<lparr>py_hash := (\<lambda>s. 17), rnd_random := (\<lambda>seed. of_int (seed mod 10) / 10)\<rparr>"

text \<open>
  An upstream where every request raises the given exception; the one that fails in
  transport; and one that always answers.
\<close>

definition failing :: "exn \<Rightarrow> upstream" where
  "failing e =
     \<lparr>get_text = (\<lambda>url auth. Inl e),
      get_json_locations = (\<lambda>url h. Inl e),
      get_json_detail = (\<lambda>url h. Inl e),
      get_json_latest = (\<lambda>url h. Inl e),
      get_json_airnow = (\<lambda>url. Inl e)\<rparr>"

definition offline :: upstream where
  "offline = failing TransportError"

definition online :: upstream where
  "online =
     \<lparr>get_text = (\<lambda>url auth. Inr ''Dataset { } ;''),
      get_json_locations = (\<lambda>url h. Inr []),
      get_json_detail = (\<lambda>url h. Inr []),
      get_json_latest = (\<lambda>url h. Inr []),
      get_json_airnow = (\<lambda>url. Inr ''[]'')\<rparr>"

definition no_credentials :: settings where
  "no_credentials =
     \<lparr>earthdata_username = None, earthdata_password = None,
      openaq_api_key = None, airnow_api_key = None\<rparr>"

definition sample_time :: datetime where
  "sample_time =
     \<lparr>dt_year = 2024, dt_month = 3, dt_day = 5, dt_hour = 7, dt_minute = 40, dt_second = 9,
      dt_microsecond = 0\<rparr>"

definition sample_wind_query :: wind_query where
  "sample_wind_query =
     \<lparr>q_location = \<lparr>loc_lat = 40.7, loc_lon = - 74.0\<rparr>, q_when = sample_time,
      q_radius_km = Some 25, q_location_name = None, q_output_mode = Predict,
      wq_hours_back = 24, wq_hours_fwd = 48\<rparr>"

definition sample_temperature_query :: temperature_query where
  "sample_temperature_query =
     \<lparr>q_location = \<lparr>loc_lat = 40.7, loc_lon = - 74.0\<rparr>, q_when = sample_time,
      q_radius_km = Some 25, q_location_name = None, q_output_mode = Predict,
      tq_days_back = 2, tq_days_fwd = 4\<rparr>"

section \<open>Properties of the upsert helper\<close>

lemma ensure_filled_absent:
  "var_name \<notin> set (map obs_name xs) \<Longrightarrow>
   ensure_filled xs var_name u v = xs @ [\<lparr>obs_name = var_name, obs_value = v, obs_unit = u\<rparr>]"
  by (induction xs) auto

lemma ensure_filled_names_present:
  "var_name \<in> set (map obs_name xs) \<Longrightarrow>
   map obs_name (ensure_filled xs var_name u v) = map obs_name xs"
  by (induction xs) auto

lemma ensure_filled_others:
  "i < length xs \<Longrightarrow> obs_name (xs ! i) \<noteq> var_name \<Longrightarrow>
   ensure_filled xs var_name u v ! i = xs ! i"
proof (induction xs arbitrary: i)
  case Nil
  then show ?case by simp
next
  case (Cons it rest)
  show ?case
  proof (cases i)
    case 0
    with Cons.prems show ?thesis by simp
  next
    case (Suc k)
    with Cons show ?thesis by simp
  qed
qed

lemma ensure_filled_written:
  "distinct (map obs_name xs) \<Longrightarrow> y \<in> set (ensure_filled xs var_name u v) \<Longrightarrow>
   obs_name y = var_name \<Longrightarrow> obs_value y = v \<and> obs_unit y = u"
proof (induction xs)
  case Nil
  then show ?case by simp
next
  case (Cons it rest)
  show ?case
  proof (cases "obs_name it = var_name")
    case True
    with Cons.prems show ?thesis by (auto simp: image_iff)
  next
    case False
    with Cons show ?thesis by auto
  qed
qed

lemma ensure_filled_once:
  "distinct (map obs_name xs) \<Longrightarrow>
   length (filter (\<lambda>y. obs_name y = var_name) (ensure_filled xs var_name u v)) = 1"
proof (induction xs)
  case Nil
  then show ?case by simp
next
  case (Cons it rest)
  show ?case
  proof (cases "obs_name it = var_name")
    case True
    with Cons.prems have "filter (\<lambda>y. obs_name y = var_name) rest = []"
      by (auto simp: filter_empty_conv image_iff)
    with True show ?thesis by simp
  next
    case False
    with Cons show ?thesis by simp
  qed
qed

text \<open>
  Claim C9. When the names of the list are pairwise different, \<^verbatim>\<open>_ensure_filled\<close>
  leaves exactly one entry with the given name, and every entry with that name carries
  the given value and unit. When the name was present, the list keeps its length and
  the order of its names, and every entry with another name is untouched; when it was
  absent, the list is the old one with the new entry appended at the end.
\<close>

theorem ensure_filled_upsert:
  assumes "distinct (map obs_name xs)"
  shows "length (filter (\<lambda>y. obs_name y = var_name) (ensure_filled xs var_name u v)) = 1
    \<and> (\<forall>y \<in> set (ensure_filled xs var_name u v).
          obs_name y = var_name \<longrightarrow> obs_value y = v \<and> obs_unit y = u)
    \<and> distinct (map obs_name (ensure_filled xs var_name u v))
    \<and> (var_name \<in> set (map obs_name xs) \<longrightarrow>
          length (ensure_filled xs var_name u v) = length xs
        \<and> map obs_name (ensure_filled xs var_name u v) = map obs_name xs
        \<and> (\<forall>i < length xs. obs_name (xs ! i) \<noteq> var_name \<longrightarrow>
              ensure_filled xs var_name u v ! i = xs ! i))
    \<and> (var_name \<notin> set (map obs_name xs) \<longrightarrow>
          ensure_filled xs var_name u v
            = xs @ [\<lparr>obs_name = var_name, obs_value = v, obs_unit = u\<rparr>])"
proof (intro conjI impI allI ballI)
  show "length (filter (\<lambda>y. obs_name y = var_name) (ensure_filled xs var_name u v)) = 1"
    using assms by (rule ensure_filled_once)
next
  fix y assume "y \<in> set (ensure_filled xs var_name u v)" "obs_name y = var_name"
  with assms show "obs_value y = v" "obs_unit y = u"
    using ensure_filled_written by blast+
next
  show "distinct (map obs_name (ensure_filled xs var_name u v))"
  proof (cases "var_name \<in> set (map obs_name xs)")
    case True
    with assms show ?thesis by (simp add: ensure_filled_names_present)
  next
    case False
    with assms show ?thesis by (simp add: ensure_filled_absent)
  qed
next
  assume present: "var_name \<in> set (map obs_name xs)"
  then have names: "map obs_name (ensure_filled xs var_name u v) = map obs_name xs"
    by (rule ensure_filled_names_present)
  show "map obs_name (ensure_filled xs var_name u v) = map obs_name xs"
    by (rule names)
  from names have "length (map obs_name (ensure_filled xs var_name u v)) = length (map obs_name xs)"
    by simp
  then show "length (ensure_filled xs var_name u v) = length xs"
    by simp
next
  fix i assume "var_name \<in> set (map obs_name xs)" "i < length xs" "obs_name (xs ! i) \<noteq> var_name"
  then show "ensure_filled xs var_name u v ! i = xs ! i"
    by (simp add: ensure_filled_others)
next
  assume "var_name \<notin> set (map obs_name xs)"
  then show "ensure_filled xs var_name u v
      = xs @ [\<lparr>obs_name = var_name, obs_value = v, obs_unit = u\<rparr>]"
    by (rule ensure_filled_absent)
qed

theorem ensure_filled_upsert_witness:
  "distinct (map obs_name
      [\<lparr>obs_name = ''PM2.5'', obs_value = 9, obs_unit = ''ug/m3''\<rparr>,
       \<lparr>obs_name = ''NO2'', obs_value = 14, obs_unit = ''ppb''\<rparr>])
   \<and> ensure_filled
        [\<lparr>obs_name = ''PM2.5'', obs_value = 9, obs_unit = ''ug/m3''\<rparr>,
         \<lparr>obs_name = ''NO2'', obs_value = 14, obs_unit = ''ppb''\<rparr>] ''NO2'' ''ppm'' 3
      = [\<lparr>obs_name = ''PM2.5'', obs_value = 9, obs_unit = ''ug/m3''\<rparr>,
         \<lparr>obs_name = ''NO2'', obs_value = 3, obs_unit = ''ppm''\<rparr>]
   \<and> length (filter (\<lambda>y. obs_name y = ''NO2'')
        (ensure_filled
          [\<lparr>obs_name = ''PM2.5'', obs_value = 9, obs_unit = ''ug/m3''\<rparr>,
           \<lparr>obs_name = ''NO2'', obs_value = 14, obs_unit = ''ppb''\<rparr>] ''NO2'' ''ppm'' 3)) = 1
   \<and> ensure_filled
        [\<lparr>obs_name = ''PM2.5'', obs_value = 9, obs_unit = ''ug/m3''\<rparr>,
         \<lparr>obs_name = ''NO2'', obs_value = 14, obs_unit = ''ppb''\<rparr>] ''O3'' ''ppb'' 40
      = [\<lparr>obs_name = ''PM2.5'', obs_value = 9, obs_unit = ''ug/m3''\<rparr>,
         \<lparr>obs_name = ''NO2'', obs_value = 14, obs_unit = ''ppb''\<rparr>,
         \<lparr>obs_name = ''O3'', obs_value = 40, obs_unit = ''ppb''\<rparr>]"
proof -
  let ?xs = "[\<lparr>obs_name = ''PM2.5'', obs_value = 9, obs_unit = ''ug/m3''\<rparr>,
              \<lparr>obs_name = ''NO2'', obs_value = 14, obs_unit = ''ppb''\<rparr>]"
  have d: "distinct (map obs_name ?xs)" by simp
  have absent: "''O3'' \<notin> set (map obs_name ?xs)" by simp
  from ensure_filled_upsert [OF d, of "''NO2''" "''ppm''" 3]
  have once: "length (filter (\<lambda>y. obs_name y = ''NO2'') (ensure_filled ?xs ''NO2'' ''ppm'' 3)) = 1"
    by blast
  from ensure_filled_upsert [OF d, of "''O3''" "''ppb''" 40] absent
  have app: "ensure_filled ?xs ''O3'' ''ppb'' 40
      = ?xs @ [\<lparr>obs_name = ''O3'', obs_value = 40, obs_unit = ''ppb''\<rparr>]"
    by blast
  show ?thesis using d once app by simp
qed

section \<open>Properties of rounding\<close>

text \<open>
  \<^verbatim>\<open>round\<close> moves a value by at most half a unit, never across an integer, and
  \<^verbatim>\<open>round(x, nd)\<close> never across a multiple of the unit at \<open>nd\<close> decimals.
\<close>

lemma py_round0_cases: "py_round0 x = \<lfloor>x\<rfloor> \<or> py_round0 x = \<lfloor>x\<rfloor> + 1"
  by (simp add: py_round0_def Let_def)

lemma py_round0_error: "\<bar>of_int (py_round0 x) - x\<bar> \<le> 1 / 2"
proof -
  have "of_int \<lfloor>x\<rfloor> \<le> x" "x < of_int \<lfloor>x\<rfloor> + 1" by linarith+
  then show ?thesis
    by (auto simp: py_round0_def Let_def abs_le_iff)
qed

lemma py_round0_le_int: 
  assumes "x \<le> of_int n" shows "py_round0 x \<le> n"
proof (cases "\<lfloor>x\<rfloor> < n")
  case True
  with py_round0_cases [of x] show ?thesis by auto
next
  case False
  with assms have "\<lfloor>x\<rfloor> = n" by (simp add: floor_le_iff order_antisym not_less le_floor_iff)
  moreover from this assms have "x = of_int n" by linarith
  ultimately show ?thesis by (simp add: py_round0_def)
qed

lemma py_round0_ge_int:
  assumes "of_int n \<le> x" shows "n \<le> py_round0 x"
proof -
  from assms have "n \<le> \<lfloor>x\<rfloor>" by (simp add: le_floor_iff)
  with py_round0_cases [of x] show ?thesis by auto
qed


lemma py_round_error: "\<bar>py_round x nd - x\<bar> \<le> round_unit nd / 2"
proof (cases "0 \<le> nd")
  case True
  define p :: real where "p = 10 ^ nat nd"
  define a :: real where "a = of_int (py_round0 (x * p))"
  have p: "0 < p" by (simp add: p_def)
  have E: "py_round x nd = a / p" using True by (simp add: py_round_def p_def a_def)
  have U: "round_unit nd = 1 / p" using True by (simp add: round_unit_def p_def)
  have "\<bar>a - x * p\<bar> \<le> 1 / 2" unfolding a_def by (rule py_round0_error)
  then have "\<bar>a - x * p\<bar> / p \<le> (1 / 2) / p"
    by (rule divide_right_mono) (use p in simp)
  moreover have "\<bar>a - x * p\<bar> / p = \<bar>a / p - x\<bar>"
  proof -
    have "\<bar>a - x * p\<bar> / p = \<bar>(a - x * p) / p\<bar>" using p by simp
    also have "(a - x * p) / p = a / p - x" using p by (simp add: diff_divide_distrib)
    finally show ?thesis .
  qed
  ultimately have "\<bar>a / p - x\<bar> \<le> (1 / p) / 2" by simp
  then show ?thesis by (simp only: E U)
next
  case False
  define p :: real where "p = 10 ^ nat (- nd)"
  define a :: real where "a = of_int (py_round0 (x / p))"
  have p: "0 < p" by (simp add: p_def)
  have E: "py_round x nd = a * p" using False by (simp add: py_round_def p_def a_def)
  have U: "round_unit nd = p" using False by (simp add: round_unit_def p_def)
  have "\<bar>a - x / p\<bar> \<le> 1 / 2" unfolding a_def by (rule py_round0_error)
  then have "\<bar>a - x / p\<bar> * p \<le> (1 / 2) * p"
    by (rule mult_right_mono) (use p in simp)
  moreover have "\<bar>a - x / p\<bar> * p = \<bar>a * p - x\<bar>"
  proof -
    have "\<bar>a - x / p\<bar> * p = \<bar>(a - x / p) * p\<bar>" using p by (simp add: abs_mult)
    also have "(a - x / p) * p = a * p - x" using p by (simp add: left_diff_distrib)
    finally show ?thesis .
  qed
  ultimately have "\<bar>a * p - x\<bar> \<le> p / 2" by simp
  then show ?thesis by (simp only: E U)
qed

lemma py_round_within:
  assumes "0 \<le> nd" and lo: "lo * 10 ^ nat nd = of_int a" and hi: "hi * 10 ^ nat nd = of_int b"
    and "lo \<le> x" "x \<le> hi"
  shows "lo \<le> py_round x nd \<and> py_round x nd \<le> hi"
proof -
  define p :: real where "p = 10 ^ nat nd"
  have p: "0 < p" by (simp add: p_def)
  have "of_int a \<le> x * p" using assms p by (metis mult_right_mono less_imp_le p_def)
  then have A: "a \<le> py_round0 (x * p)" by (rule py_round0_ge_int)
  have "x * p \<le> of_int b" using assms p by (metis mult_right_mono less_imp_le p_def)
  then have B: "py_round0 (x * p) \<le> b" by (rule py_round0_le_int)
  have "lo = of_int a / p" using lo p by (simp add: p_def field_simps)
  moreover have "hi = of_int b / p" using hi p by (simp add: p_def field_simps)
  moreover have "of_int a / p \<le> of_int (py_round0 (x * p)) / p"
    using A p by (simp add: divide_right_mono)
  moreover have "of_int (py_round0 (x * p)) / p \<le> of_int b / p"
    using B p by (simp add: divide_right_mono)
  ultimately show ?thesis using \<open>0 \<le> nd\<close> by (simp add: py_round_def p_def)
qed

lemma uniform_bounds:
  assumes "0 \<le> r" "r \<le> 1" "lo \<le> hi"
  shows "lo \<le> uniform r lo hi \<and> uniform r lo hi \<le> hi"
proof -
  have "0 \<le> (hi - lo) * r" using assms by simp
  moreover have "(hi - lo) * r \<le> (hi - lo) * 1" using assms by (intro mult_left_mono) auto
  ultimately show ?thesis by (simp add: uniform_def)
qed

section \<open>Properties of the synthetic value generator\<close>

text \<open>
  Claim C1. For a fixed input tuple the generator is meant to return the same value in
  every run. The seed is taken from the built-in hash of a string, which the
  interpreter salts anew at every start: in two runs whose hashes of the seed text
  differ (12 and 17 here), the same tuple gives two different values, 28.0 and 85.5.
\<close>

theorem fake_uniform_differs_between_processes:
  "fake_uniform process_a 40.7 (- 74.0) (isoformat sample_time) ''PM2.5'' 5 120 1 = 28
   \<and> fake_uniform process_b 40.7 (- 74.0) (isoformat sample_time) ''PM2.5'' 5 120 1 = 85.5"
  by (simp add: fake_uniform_def seed_from_def uniform_def process_a_def process_b_def
      sample_lib_def py_round_def py_round0_def)

text \<open>Within one run the value is a function of the tuple alone.\<close>

lemma fake_uniform_same_process:
  "py_hash L = py_hash L' \<Longrightarrow> rnd_random L = rnd_random L' \<Longrightarrow>
   fake_uniform L lat lon dt_iso var lo hi nd = fake_uniform L' lat lon dt_iso var lo hi nd"
  by (simp add: fake_uniform_def seed_from_def)

lemma fake_uniform_within:
  assumes rng: "0 \<le> rnd_random L (seed_from L lat lon dt_iso var)"
               "rnd_random L (seed_from L lat lon dt_iso var) \<le> 1"
    and "0 \<le> nd" "lo * 10 ^ nat nd = of_int a" "hi * 10 ^ nat nd = of_int b" "lo \<le> hi"
  shows "lo \<le> fake_uniform L lat lon dt_iso var lo hi nd
       \<and> fake_uniform L lat lon dt_iso var lo hi nd \<le> hi"
proof -
  let ?v = "uniform (rnd_random L (seed_from L lat lon dt_iso var)) lo hi"
  have "lo \<le> ?v \<and> ?v \<le> hi" using rng \<open>lo \<le> hi\<close> by (rule uniform_bounds)
  then have "lo \<le> py_round ?v nd \<and> py_round ?v nd \<le> hi"
    using assms(3-5) py_round_within by blast
  then show ?thesis by (simp add: fake_uniform_def)
qed

lemma fake_uniform_near:
  assumes rng: "0 \<le> rnd_random L (seed_from L lat lon dt_iso var)"
               "rnd_random L (seed_from L lat lon dt_iso var) \<le> 1"
    and "lo \<le> hi"
  shows "lo - round_unit nd / 2 \<le> fake_uniform L lat lon dt_iso var lo hi nd
       \<and> fake_uniform L lat lon dt_iso var lo hi nd \<le> hi + round_unit nd / 2"
proof -
  let ?v = "uniform (rnd_random L (seed_from L lat lon dt_iso var)) lo hi"
  have v: "lo \<le> ?v \<and> ?v \<le> hi" using rng \<open>lo \<le> hi\<close> by (rule uniform_bounds)
  have "\<bar>py_round ?v nd - ?v\<bar> \<le> round_unit nd / 2" by (rule py_round_error)
  then have "py_round ?v nd - ?v \<le> round_unit nd / 2" "?v - py_round ?v nd \<le> round_unit nd / 2"
    by linarith+
  with v have "lo - round_unit nd / 2 \<le> py_round ?v nd \<and> py_round ?v nd \<le> hi + round_unit nd / 2"
    by linarith
  then show ?thesis by (simp only: fake_uniform_def Let_def)
qed

lemma declared_ranges_on_grid:
  "\<forall>(var, lo, hi, nd) \<in> set declared_ranges.
     0 \<le> nd \<and> lo \<le> hi \<and> lo * 10 ^ nat nd = of_int \<lfloor>lo * 10 ^ nat nd\<rfloor>
       \<and> hi * 10 ^ nat nd = of_int \<lfloor>hi * 10 ^ nat nd\<rfloor>"
  by (simp add: declared_ranges_def)

lemma fake_rain_bounds:
  assumes rng: "\<forall>s. 0 \<le> rnd_random L s \<and> rnd_random L s < 1"
  shows "0 \<le> fake_rain L lat lon dt_iso \<and> fake_rain L lat lon dt_iso \<le> 12"
proof -
  define u1 where "u1 = fake_uniform L lat lon dt_iso ''imerg_rate_u1'' 0.0 1.0 3"
  define u2 where "u2 = fake_uniform L lat lon dt_iso ''imerg_rate_u2'' 0.0 1.0 3"
  have r: "\<And>s. 0 \<le> rnd_random L s" "\<And>s. rnd_random L s \<le> 1"
    using rng by (auto intro: less_imp_le)
  have b1: "0 \<le> u1 \<and> u1 \<le> 1" unfolding u1_def
    using fake_uniform_within [OF r(1) r(2), of 3 "0.0" 0 "1.0" 1000] by simp
  have b2: "0 \<le> u2 \<and> u2 \<le> 1" unfolding u2_def
    using fake_uniform_within [OF r(1) r(2), of 3 "0.0" 0 "1.0" 1000] by simp
  have "0 \<le> u1 * u2" using b1 b2 by simp
  moreover have "u1 * u2 \<le> 1" using b1 b2 by (simp add: mult_le_one)
  ultimately have "0 \<le> (u1 * u2) * 12.0 \<and> (u1 * u2) * 12.0 \<le> 12" by simp
  then have "0 \<le> py_round ((u1 * u2) * 12.0) 2 \<and> py_round ((u1 * u2) * 12.0) 2 \<le> 12"
    using py_round_within [of 2 0 0 12 1200 "(u1 * u2) * 12.0"] by simp
  then show ?thesis by (simp add: fake_rain_def u1_def u2_def Let_def)
qed

text \<open>
  Claim C5. With a generator that draws from the unit interval, a synthesized value
  lies within half a rounding unit of its bounds \<open>[lo, hi]\<close>; for every range that the
  code declares (the bounds are multiples of the rounding unit there) it lies within the
  bounds themselves; and the synthetic rain rate lies in \<open>[0, 12]\<close>.
\<close>

theorem synthesized_value_in_range:
  assumes rng: "\<forall>s. 0 \<le> rnd_random L s \<and> rnd_random L s < 1"
  shows "(lo \<le> hi \<longrightarrow>
            lo - round_unit nd / 2 \<le> fake_uniform L lat lon dt_iso var lo hi nd
          \<and> fake_uniform L lat lon dt_iso var lo hi nd \<le> hi + round_unit nd / 2)
       \<and> (\<forall>(v, l, h, n) \<in> set declared_ranges.
            l \<le> fake_uniform L lat lon dt_iso v l h n \<and> fake_uniform L lat lon dt_iso v l h n \<le> h)
       \<and> 0 \<le> fake_rain L lat lon dt_iso \<and> fake_rain L lat lon dt_iso \<le> 12"
proof -
  have r: "\<And>s. 0 \<le> rnd_random L s" "\<And>s. rnd_random L s \<le> 1"
    using rng by (auto intro: less_imp_le)
  have near: "lo \<le> hi \<longrightarrow>
            lo - round_unit nd / 2 \<le> fake_uniform L lat lon dt_iso var lo hi nd
          \<and> fake_uniform L lat lon dt_iso var lo hi nd \<le> hi + round_unit nd / 2"
    using fake_uniform_near [OF r(1) r(2)] by blast
  have table: "\<forall>(v, l, h, n) \<in> set declared_ranges.
      l \<le> fake_uniform L lat lon dt_iso v l h n \<and> fake_uniform L lat lon dt_iso v l h n \<le> h"
  proof (clarify)
    fix v l h n assume "(v, l, h, n) \<in> set declared_ranges"
    with declared_ranges_on_grid
    have g: "0 \<le> n" "l \<le> h" "l * 10 ^ nat n = of_int \<lfloor>l * 10 ^ nat n\<rfloor>"
      "h * 10 ^ nat n = of_int \<lfloor>h * 10 ^ nat n\<rfloor>"
      by blast+
    show "l \<le> fake_uniform L lat lon dt_iso v l h n \<and> fake_uniform L lat lon dt_iso v l h n \<le> h"
      using fake_uniform_within [OF r(1) r(2) g(1) g(3) g(4) g(2)] .
  qed
  from near table fake_rain_bounds [OF rng] show ?thesis by blast
qed

theorem synthesized_value_in_range_witness:
  "(\<forall>s. 0 \<le> rnd_random sample_lib s \<and> rnd_random sample_lib s < 1)
   \<and> 0 \<le> fake_rain sample_lib 40.7 (- 74.0) (isoformat sample_time)
   \<and> fake_rain sample_lib 40.7 (- 74.0) (isoformat sample_time) \<le> 12
   \<and> fake_rain sample_lib 40.7 (- 74.0) (isoformat sample_time) = 3
   \<and> fake_uniform sample_lib 40.7 (- 74.0) (isoformat sample_time) ''gust_factor'' 1.3 1.8 2 = 1.55
   \<and> 1.3 - round_unit 2 / 2 \<le> fake_uniform sample_lib 40.7 (- 74.0) (isoformat sample_time) ''gust_factor'' 1.3 1.8 2"
proof -
  have rng: "\<forall>s. 0 \<le> rnd_random sample_lib s \<and> rnd_random sample_lib s < 1"
    by (simp add: sample_lib_def)
  have rain: "fake_rain sample_lib 40.7 (- 74.0) (isoformat sample_time) = 3"
    by (simp add: fake_rain_def fake_uniform_def uniform_def sample_lib_def py_round_def py_round0_def)
  have gust: "fake_uniform sample_lib 40.7 (- 74.0) (isoformat sample_time) ''gust_factor'' 1.3 1.8 2 = 1.55"
    by (simp add: fake_uniform_def uniform_def sample_lib_def py_round_def py_round0_def)
  from synthesized_value_in_range [OF rng, of "1.3" "1.8" 2 "40.7" "- 74.0" "isoformat sample_time" "''gust_factor''"]
  show ?thesis using rng rain gust by simp
qed

section \<open>Properties of the adapters\<close>

text \<open>The grid adapters return a pair on every answer and on every failure of the upstream.\<close>

lemma fetch_m2_scalar_total:
  "\<exists>v src. fetch_m2_scalar L S U var lat lon d = Inr (v, src)"
  by (simp add: fetch_m2_scalar_def Let_def split: prod.splits sum.splits option.splits)

lemma fetch_imerg_total:
  "\<exists>v src. fetch_imerg_rate_mm_per_hr L S U lat lon d rc = Inr (v, src)"
  by (simp add: fetch_imerg_rate_mm_per_hr_def Let_def split: prod.splits sum.splits option.splits)

lemma fetch_t2m_c_total: "\<exists>v src. fetch_t2m_c L S U lat lon d = Inr (v, src)"
proof -
  obtain v src where "fetch_m2_scalar L S U ''T2M'' lat lon d = Inr (v, src)"
    using fetch_m2_scalar_total by blast
  then show ?thesis by (cases v) (simp_all add: fetch_t2m_c_def await_def)
qed

lemma fetch_ts_c_total: "\<exists>v src. fetch_ts_c L S U lat lon d = Inr (v, src)"
proof -
  obtain v src where "fetch_m2_scalar L S U ''TS'' lat lon d = Inr (v, src)"
    using fetch_m2_scalar_total by blast
  then show ?thesis by (cases v) (simp_all add: fetch_ts_c_def await_def)
qed

lemma fetch_rh2m_total: "\<exists>v src. fetch_rh2m L S U lat lon d = Inr (v, src)"
  unfolding fetch_rh2m_def by (rule fetch_m2_scalar_total)

lemma fetch_wind10m_total: "\<exists>w srcs. fetch_wind10m L S U lat lon d = Inr (w, srcs)"
proof -
  obtain u su where "fetch_m2_scalar L S U ''U10M'' lat lon d = Inr (u, su)"
    using fetch_m2_scalar_total by blast
  moreover obtain v sv where "fetch_m2_scalar L S U ''V10M'' lat lon d = Inr (v, sv)"
    using fetch_m2_scalar_total by blast
  ultimately show ?thesis
    by (cases u; cases v) (simp_all add: fetch_wind10m_def await_def)
qed

lemma grid_adapters_catch_every_failure:
  "fetch_m2_scalar L S (failing e) var lat lon d =
     Inr (None, \<lparr>ds_name = ''MERRA-2 '' @ var @ '' (error)'',
       ds_url = merra2_ascii_url d @ ''?'' @ var @ idx_range (m2_time_idx d) (m2_time_idx d)
         @ idx_range (fst (m2_cell lat lon)) (fst (m2_cell lat lon))
         @ idx_range (snd (m2_cell lat lon)) (snd (m2_cell lat lon)),
       ds_note = Some ''Fallo OPeNDAP/credenciales'', ds_auth_required = True\<rparr>)"
  "map_sum id (\<lambda>(v, src). (v, ds_name src)) (fetch_imerg_rate_mm_per_hr L S (failing e) lat lon d rc)
     = Inr (None, ''IMERG (error)'')"
  by (simp_all add: fetch_m2_scalar_def fetch_imerg_rate_mm_per_hr_def failing_def Let_def
      case_prod_beta)

lemma station_adapters_catch_status_errors:
  "map_sum id (\<lambda>(p, src). (p, ds_name src))
     (openaq_latest_nearby_values L S (failing (HTTPStatusError code)) lat lon radius_km wanted)
     = Inr (OaqError (''OpenAQ '' @ str_nat code), ''OpenAQ v3 (error)'')"
  "map_sum id (\<lambda>(p, src). (p, ds_name src))
     (airnow_nearby L (S\<lparr>airnow_api_key := Some ''key''\<rparr>) (failing (HTTPStatusError code))
        lat lon miles)
     = Inr (AirNowError (''AirNow '' @ str_nat code), ''AirNow (error)'')"
  by (simp_all add: openaq_latest_nearby_values_def airnow_nearby_def failing_def truthy_def Let_def)

text \<open>
  Claim C2. Every adapter is meant to turn any failure of the upstream into an absent
  value with a descriptor. The two station adapters handle
  \<^verbatim>\<open>httpx.HTTPStatusError\<close> only: when the request fails in transport, or the body
  does not decode, the exception leaves \<^verbatim>\<open>openaq_latest_nearby_values\<close> and
  \<^verbatim>\<open>airnow_nearby\<close>.
\<close>

theorem station_adapters_let_failures_escape:
  "openaq_latest_nearby_values L S (failing TransportError) lat lon radius_km wanted
     = Inl TransportError
   \<and> openaq_latest_nearby_values L S (failing JSONDecodeError) lat lon radius_km wanted
     = Inl JSONDecodeError
   \<and> airnow_nearby L (S\<lparr>airnow_api_key := Some ''key''\<rparr>) (failing TransportError) lat lon miles
     = Inl TransportError
   \<and> airnow_nearby L (S\<lparr>airnow_api_key := Some ''key''\<rparr>) (failing JSONDecodeError) lat lon miles
     = Inl JSONDecodeError"
  by (simp add: openaq_latest_nearby_values_def airnow_nearby_def failing_def truthy_def Let_def)

lemma online_scalar:
  "fetch_m2_scalar sample_lib S online var lat lon d =
     (let url = merra2_ascii_url d @ ''?'' @ var @ idx_range (m2_time_idx d) (m2_time_idx d)
            @ idx_range (fst (m2_cell lat lon)) (fst (m2_cell lat lon))
            @ idx_range (snd (m2_cell lat lon)) (snd (m2_cell lat lon))
      in case re_search_var sample_lib var ''Dataset { } ;'' of
           None \<Rightarrow> Inr (None, \<lparr>ds_name = ''MERRA-2 '' @ var @ '' (ascii subset)'', ds_url = url,
                    ds_note = Some ''Sin valor (subsetting vacio o indice fuera de rango)'',
                    ds_auth_required = True\<rparr>)
         | Some val \<Rightarrow> Inr (Some val, \<lparr>ds_name = ''MERRA-2 '' @ var, ds_url = url,
                    ds_note = Some ''OPeNDAP subset .ascii'', ds_auth_required = True\<rparr>))"
  by (simp add: fetch_m2_scalar_def online_def Let_def case_prod_beta)

lemma offline_scalar:
  "map_sum id fst (fetch_m2_scalar L S offline var lat lon d) = Inr None"
  by (simp add: fetch_m2_scalar_def offline_def failing_def Let_def split: prod.splits)

lemma offline_wind: "fetch_wind10m L S offline lat lon d =
  Inr (None, [snd (projr (fetch_m2_scalar L S offline ''U10M'' lat lon d)),
              snd (projr (fetch_m2_scalar L S offline ''V10M'' lat lon d))])"
  by (simp add: fetch_wind10m_def fetch_m2_scalar_def offline_def failing_def await_def Let_def split: prod.splits)

lemma wind_predict_absent:
  assumes "fetch_wind10m L S U (loc_lat (q_location q)) (loc_lon (q_location q)) (q_when q) = Inr (None, srcs)"
  shows "\<exists>b. wind_predict L S U q = Inr b
     \<and> map obs_name (recent_observations b) = [''wind_speed'', ''wind_gust'', ''wind_dir'', ''pressure'']
     \<and> faker_filled b = [''wind_speed'', ''wind_gust'']
     \<and> horizon_hours (time_info b) = max (wq_hours_fwd q) 48"
  using assms by (simp add: wind_predict_def await_def Let_def predict_time_block_def)

lemma wind_predict_live:
  assumes "fetch_wind10m L S U (loc_lat (q_location q)) (loc_lon (q_location q)) (q_when q) = Inr (Some w, srcs)"
  shows "\<exists>b. wind_predict L S U q = Inr b
     \<and> map obs_name (recent_observations b) = [''wind_speed'', ''wind_gust'', ''wind_dir'', ''pressure'']
     \<and> faker_filled b = []
     \<and> obs_value (recent_observations b ! 0) = py_round (w * 3.6) 1
     \<and> horizon_hours (time_info b) = max (wq_hours_fwd q) 48"
  using assms by (simp add: wind_predict_def await_def Let_def predict_time_block_def)

text \<open>
  Claim C7. The temperature adapters subtract 273.15 from the upstream value, so
  273.15 K is 0.0 degrees Celsius; the wind adapter returns the Euclidean magnitude of
  the two components, in m/s; the wind endpoint multiplies the speed by 3.6 (and rounds
  the product to one decimal), so 10 m/s is 36.0 km/h.
\<close>

theorem unit_conversions:
  "(fetch_m2_scalar L S U ''T2M'' lat lon d = Inr (Some k, src)
      \<longrightarrow> fetch_t2m_c L S U lat lon d = Inr (Some (k - 273.15), src))
   \<and> (fetch_m2_scalar L S U ''T2M'' lat lon d = Inr (Some 273.15, src)
      \<longrightarrow> fetch_t2m_c L S U lat lon d = Inr (Some 0, src))
   \<and> (fetch_m2_scalar L S U ''TS'' lat lon d = Inr (Some k, src)
      \<longrightarrow> fetch_ts_c L S U lat lon d = Inr (Some (k - 273.15), src))
   \<and> (fetch_m2_scalar L S U ''U10M'' lat lon d = Inr (Some u, src_u)
       \<and> fetch_m2_scalar L S U ''V10M'' lat lon d = Inr (Some v, src_v)
      \<longrightarrow> fetch_wind10m L S U lat lon d = Inr (Some (sqrt (u * u + v * v)), [src_u, src_v]))
   \<and> (fetch_wind10m L S U (loc_lat (q_location q)) (loc_lon (q_location q)) (q_when q)
         = Inr (Some w, srcs)
      \<longrightarrow> map_sum id (\<lambda>b. recent_observations b ! 0) (wind_predict L S U q)
            = Inr \<lparr>obs_name = ''wind_speed'', obs_value = py_round (w * 3.6) 1, obs_unit = ''km/h''\<rparr>)
   \<and> (fetch_wind10m L S U (loc_lat (q_location q)) (loc_lon (q_location q)) (q_when q)
         = Inr (Some 10, srcs)
      \<longrightarrow> map_sum id (\<lambda>b. recent_observations b ! 0) (wind_predict L S U q)
            = Inr \<lparr>obs_name = ''wind_speed'', obs_value = 36.0, obs_unit = ''km/h''\<rparr>)"
proof (intro conjI impI)
  assume "fetch_m2_scalar L S U ''T2M'' lat lon d = Inr (Some k, src)"
  then show "fetch_t2m_c L S U lat lon d = Inr (Some (k - 273.15), src)"
    by (simp add: fetch_t2m_c_def await_def)
next
  assume "fetch_m2_scalar L S U ''T2M'' lat lon d = Inr (Some 273.15, src)"
  then show "fetch_t2m_c L S U lat lon d = Inr (Some 0, src)"
    by (simp add: fetch_t2m_c_def await_def)
next
  assume "fetch_m2_scalar L S U ''TS'' lat lon d = Inr (Some k, src)"
  then show "fetch_ts_c L S U lat lon d = Inr (Some (k - 273.15), src)"
    by (simp add: fetch_ts_c_def await_def)
next
  assume "fetch_m2_scalar L S U ''U10M'' lat lon d = Inr (Some u, src_u)
       \<and> fetch_m2_scalar L S U ''V10M'' lat lon d = Inr (Some v, src_v)"
  then show "fetch_wind10m L S U lat lon d = Inr (Some (sqrt (u * u + v * v)), [src_u, src_v])"
    by (simp add: fetch_wind10m_def await_def)
next
  assume "fetch_wind10m L S U (loc_lat (q_location q)) (loc_lon (q_location q)) (q_when q)
         = Inr (Some w, srcs)"
  then show "map_sum id (\<lambda>b. recent_observations b ! 0) (wind_predict L S U q)
            = Inr \<lparr>obs_name = ''wind_speed'', obs_value = py_round (w * 3.6) 1, obs_unit = ''km/h''\<rparr>"
    by (simp add: wind_predict_def await_def Let_def)
next
  assume "fetch_wind10m L S U (loc_lat (q_location q)) (loc_lon (q_location q)) (q_when q)
         = Inr (Some 10, srcs)"
  then show "map_sum id (\<lambda>b. recent_observations b ! 0) (wind_predict L S U q)
            = Inr \<lparr>obs_name = ''wind_speed'', obs_value = 36.0, obs_unit = ''km/h''\<rparr>"
    by (simp add: wind_predict_def await_def Let_def py_round_def py_round0_def)
qed

theorem unit_conversions_witness:
  "map_sum id fst (fetch_m2_scalar sample_lib no_credentials online ''T2M'' 40.7 (- 74.0) sample_time)
     = Inr (Some 273.15)
   \<and> map_sum id fst (fetch_t2m_c sample_lib no_credentials online 40.7 (- 74.0) sample_time)
     = Inr (Some 0)
   \<and> map_sum id fst (fetch_wind10m sample_lib no_credentials online 40.7 (- 74.0) sample_time)
     = Inr (Some 10)
   \<and> map_sum id (\<lambda>b. recent_observations b ! 0)
        (wind_predict sample_lib no_credentials online sample_wind_query)
     = Inr \<lparr>obs_name = ''wind_speed'', obs_value = 36, obs_unit = ''km/h''\<rparr>"
proof -
  let ?lat = "loc_lat (q_location sample_wind_query)"
  let ?lon = "loc_lon (q_location sample_wind_query)"
  let ?d = "q_when sample_wind_query"
  have q: "?lat = 40.7" "?lon = - 74.0" "?d = sample_time"
    by (simp_all add: sample_wind_query_def)
  have search: "re_search_var sample_lib var body =
      (if var = ''T2M'' then Some 273.15 else if var = ''U10M'' then Some 6
       else if var = ''V10M'' then Some 8 else None)" for var body
    by (simp add: sample_lib_def)
  have "\<exists>st. fetch_m2_scalar sample_lib no_credentials online ''T2M'' ?lat ?lon ?d
      = Inr (Some 273.15, st)"
    by (simp add: online_scalar search)
  then obtain st where t: "fetch_m2_scalar sample_lib no_credentials online ''T2M'' ?lat ?lon ?d
      = Inr (Some 273.15, st)" ..
  have "\<exists>su. fetch_m2_scalar sample_lib no_credentials online ''U10M'' ?lat ?lon ?d
      = Inr (Some 6, su)"
    by (simp add: online_scalar search)
  then obtain su where u: "fetch_m2_scalar sample_lib no_credentials online ''U10M'' ?lat ?lon ?d
      = Inr (Some 6, su)" ..
  have "\<exists>sv. fetch_m2_scalar sample_lib no_credentials online ''V10M'' ?lat ?lon ?d
      = Inr (Some 8, sv)"
    by (simp add: online_scalar search)
  then obtain sv where v: "fetch_m2_scalar sample_lib no_credentials online ''V10M'' ?lat ?lon ?d
      = Inr (Some 8, sv)" ..
  note inst = unit_conversions [of sample_lib no_credentials online ?lat ?lon ?d "273.15" st 6 su 8 sv
      sample_wind_query 10 "[su, sv]"]
  from inst t have c: "fetch_t2m_c sample_lib no_credentials online ?lat ?lon ?d = Inr (Some 0, st)"
    by simp
  have "sqrt (6 * 6 + 8 * 8) = sqrt (10 * 10)" by simp
  then have s: "sqrt (6 * 6 + 8 * 8) = 10" by (simp only: real_sqrt_mult_self) simp
  from inst u v have "fetch_wind10m sample_lib no_credentials online ?lat ?lon ?d
      = Inr (Some (sqrt (6 * 6 + 8 * 8)), [su, sv])"
    by simp
  then have w: "fetch_wind10m sample_lib no_credentials online ?lat ?lon ?d = Inr (Some 10, [su, sv])"
    by (simp only: s)
  from inst w have k: "map_sum id (\<lambda>b. recent_observations b ! 0)
        (wind_predict sample_lib no_credentials online sample_wind_query)
     = Inr \<lparr>obs_name = ''wind_speed'', obs_value = 36.0, obs_unit = ''km/h''\<rparr>"
    by (simp add: py_round_def py_round0_def)
  from t c w k show ?thesis by (simp add: q)
qed

text \<open>The index pair of the MERRA-2 adapter lies in the grid for every latitude and longitude.\<close>

lemma m2_cell_in_grid:
  "0 \<le> fst (m2_cell lat lon) \<and> fst (m2_cell lat lon) \<le> 360
   \<and> 0 \<le> snd (m2_cell lat lon) \<and> snd (m2_cell lat lon) \<le> 575"
  by (simp add: m2_cell_def Let_def)

lemma str_int_1800: "str_int 1800 = ''1800''" "str_int 1799 = ''1799''"
  "str_int 3600 = ''3600''" "str_int 3599 = ''3599''"
  by (simp_all add: str_int_def str_nat.simps digit_char_def)

text \<open>
  Claim C10. The indices of both grid adapters are meant to lie in the provider's grid.
  The IMERG adapter bounds the first index of each range from below only and the last
  from above only: at latitude 90 and longitude 180, which a request may carry, the
  window is \<open>[1800:1799][3600:3599]\<close>, outside the rows \<open>0..1799\<close> and the columns
  \<open>0..3599\<close>, and that text is the query of the URL.
\<close>

theorem imerg_window_leaves_grid:
  "imerg_window 90 180 0 = (1800, 1799, 3600, 3599)
   \<and> map_sum id (ds_url \<circ> snd) (fetch_imerg_rate_mm_per_hr L S U 90 180 d 0)
       = Inr (build_imerg_ascii_url d @ ''?precipitationCal[1800:1799][3600:3599]'')"
proof -
  have w: "imerg_window 90 180 0 = (1800, 1799, 3600, 3599)"
    by (simp add: imerg_window_def imerg_idx_lat_def imerg_idx_lon_def py_round0_def)
  have "map_sum id (ds_url \<circ> snd) (fetch_imerg_rate_mm_per_hr L S U 90 180 d 0)
       = Inr (build_imerg_ascii_url d @ ''?precipitationCal[1800:1799][3600:3599]'')"
    by (simp add: fetch_imerg_rate_mm_per_hr_def w Let_def idx_range_def str_int_1800
        split: sum.splits)
  with w show ?thesis by simp
qed

section \<open>Properties of the statistics\<close>

lemma stats_example:
  "stats (map (Some \<circ> Float) [10, 20, 30, 40])
     = Some \<lparr>st_mean = 25, st_p90 = 40, st_last = 40\<rparr>"
  by (simp add: stats_def p90_def py_or_def py_round_def py_round0_def)

lemma stats_absent:
  "stats [] = None" "stats [None, Some NaN] = None"
  by (simp_all add: stats_def)

text \<open>
  Claim C4. The 90th percentile is meant to be the element of the sorted list at rank
  \<open>round(0.9 (n - 1))\<close>. \<^verbatim>\<open>_stats\<close> takes \<^verbatim>\<open>_p90(clean) or mean\<close>, and a
  percentile of zero is falsy: for the values 0, 0, 0, 0, 0, 0, 7 the element at rank 5
  is 0, and the reported percentile is the mean, 1.
\<close>

theorem stats_p90_zero_replaced_by_mean:
  "p90 [0, 0, 0, 0, 0, 0, 7] = Some 0
   \<and> stats (map (Some \<circ> Float) [0, 0, 0, 0, 0, 0, 7])
       = Some \<lparr>st_mean = 1, st_p90 = 1, st_last = 7\<rparr>"
  by (simp add: stats_def p90_def py_or_def py_round_def py_round0_def)

section \<open>Properties of the predict responses\<close>

lemma temperature_predict_shape:
  "\<exists>t h ff srcs. temperature_predict L S U q =
     Inr \<lparr>location_name = name_or_unknown (q_location_name q),
          point = predict_point (q_location q),
          time_info = predict_time_block (q_when q) 72,
          recent_observations =
            [\<lparr>obs_name = ''temperature'', obs_value = t, obs_unit = ''degC''\<rparr>,
             \<lparr>obs_name = ''humidity'', obs_value = h, obs_unit = ''%''\<rparr>,
             \<lparr>obs_name = ''t_max_24h'',
               obs_value = py_round (t + fake_uniform L (loc_lat (q_location q)) (loc_lon (q_location q))
                 (isoformat (q_when q)) ''tmax_boost'' 0.5 6.5 1) 1, obs_unit = ''degC''\<rparr>,
             \<lparr>obs_name = ''t_min_24h'',
               obs_value = py_round (t - fake_uniform L (loc_lat (q_location q)) (loc_lon (q_location q))
                 (isoformat (q_when q)) ''tmin_boost'' 0.5 7.0 1) 1, obs_unit = ''degC''\<rparr>,
             \<lparr>obs_name = ''cloud_cover'',
               obs_value = fake_uniform L (loc_lat (q_location q)) (loc_lon (q_location q))
                 (isoformat (q_when q)) ''cloud_cover'' 5 95 0, obs_unit = ''%''\<rparr>],
          extra_unit = None,
          extra_notes = ''MERRA-2 T2M/RH2M (con fallback y tmax/tmin fake)'',
          faker_filled = ff,
          sources = Some srcs\<rparr>
     \<and> set ff \<subseteq> {''temperature'', ''humidity''}"
proof -
  obtain t0 st where t: "fetch_t2m_c L S U (loc_lat (q_location q)) (loc_lon (q_location q)) (q_when q) = Inr (t0, st)"
    using fetch_t2m_c_total by blast
  obtain h0 sh where h: "fetch_rh2m L S U (loc_lat (q_location q)) (loc_lon (q_location q)) (q_when q) = Inr (h0, sh)"
    using fetch_rh2m_total by blast
  show ?thesis
    by (cases t0; cases h0) (simp_all add: temperature_predict_def await_def Let_def t h)
qed

lemma precipitation_predict_horizon:
  "map_sum id (horizon_hours \<circ> time_info) (precipitation_predict L S U q)
     = Inr (max (pq_hours_fwd q) 24)"
proof -
  obtain a sa where a: "fetch_imerg_rate_mm_per_hr L S U (loc_lat (q_location q)) (loc_lon (q_location q)) (q_when q) 0 = Inr (a, sa)"
    using fetch_imerg_total by blast
  obtain h0 sh where h: "fetch_rh2m L S U (loc_lat (q_location q)) (loc_lon (q_location q)) (q_when q) = Inr (h0, sh)"
    using fetch_rh2m_total by blast
  obtain t0 st where t: "fetch_ts_c L S U (loc_lat (q_location q)) (loc_lon (q_location q)) (q_when q) = Inr (t0, st)"
    using fetch_ts_c_total by blast
  show ?thesis
    by (cases a; cases h0; cases t0)
      (simp_all add: precipitation_predict_def await_def Let_def a h t predict_time_block_def)
qed

lemma wind_predict_horizon:
  "map_sum id (horizon_hours \<circ> time_info) (wind_predict L S U q) = Inr (max (wq_hours_fwd q) 48)"
proof -
  obtain w srcs where w: "fetch_wind10m L S U (loc_lat (q_location q)) (loc_lon (q_location q)) (q_when q) = Inr (w, srcs)"
    using fetch_wind10m_total by blast
  show ?thesis
    by (cases w) (simp_all add: wind_predict_def await_def Let_def w predict_time_block_def)
qed

lemma temperature_predict_horizon:
  "map_sum id (horizon_hours \<circ> time_info) (temperature_predict L S U q) = Inr 72"
proof -
  obtain t h ff srcs where "temperature_predict L S U q =
     Inr \<lparr>location_name = name_or_unknown (q_location_name q),
          point = predict_point (q_location q),
          time_info = predict_time_block (q_when q) 72,
          recent_observations =
            [\<lparr>obs_name = ''temperature'', obs_value = t, obs_unit = ''degC''\<rparr>,
             \<lparr>obs_name = ''humidity'', obs_value = h, obs_unit = ''%''\<rparr>,
             \<lparr>obs_name = ''t_max_24h'',
               obs_value = py_round (t + fake_uniform L (loc_lat (q_location q)) (loc_lon (q_location q))
                 (isoformat (q_when q)) ''tmax_boost'' 0.5 6.5 1) 1, obs_unit = ''degC''\<rparr>,
             \<lparr>obs_name = ''t_min_24h'',
               obs_value = py_round (t - fake_uniform L (loc_lat (q_location q)) (loc_lon (q_location q))
                 (isoformat (q_when q)) ''tmin_boost'' 0.5 7.0 1) 1, obs_unit = ''degC''\<rparr>,
             \<lparr>obs_name = ''cloud_cover'',
               obs_value = fake_uniform L (loc_lat (q_location q)) (loc_lon (q_location q))
                 (isoformat (q_when q)) ''cloud_cover'' 5 95 0, obs_unit = ''%''\<rparr>],
          extra_unit = None,
          extra_notes = ''MERRA-2 T2M/RH2M (con fallback y tmax/tmin fake)'',
          faker_filled = ff,
          sources = Some srcs\<rparr>"
    using temperature_predict_shape by blast
  then show ?thesis by (simp add: predict_time_block_def)
qed

text \<open>
  Claim C8, as amended. The horizon of a predict response is the larger of 24 and the
  request's \<^verbatim>\<open>hours_fwd\<close> for precipitation, the larger of 48 and \<^verbatim>\<open>hours_fwd\<close>
  for wind, and the constant 72 for temperature, whatever the request carries.
\<close>

theorem predict_horizons:
  "map_sum id (horizon_hours \<circ> time_info) (precipitation_predict L S U pq)
     = Inr (max (pq_hours_fwd pq) 24)
   \<and> map_sum id (horizon_hours \<circ> time_info) (wind_predict L S U wq)
     = Inr (max (wq_hours_fwd wq) 48)
   \<and> map_sum id (horizon_hours \<circ> time_info) (temperature_predict L S U tq) = Inr 72"
  by (simp only: precipitation_predict_horizon wind_predict_horizon temperature_predict_horizon)

text \<open>
  Claim C8 as stated fails for temperature: a request that looks four days (96 hours)
  ahead gets the horizon 72, not the larger of the two.
\<close>

theorem temperature_horizon_ignores_request:
  "map_sum id (horizon_hours \<circ> time_info)
      (temperature_predict sample_lib no_credentials offline sample_temperature_query) = Inr 72
   \<and> max 72 (24 * tq_days_fwd sample_temperature_query) = 96"
  by (simp add: temperature_predict_horizon sample_temperature_query_def)

text \<open>
  Claim C3, as amended. The wind response always holds the four observations
  \<^verbatim>\<open>wind_speed\<close>, \<^verbatim>\<open>wind_gust\<close>, \<^verbatim>\<open>wind_dir\<close> and \<^verbatim>\<open>pressure\<close>; when the
  reanalysis adapter returns no speed, the provenance list is \<^verbatim>\<open>wind_speed\<close>,
  \<^verbatim>\<open>wind_gust\<close>; \<^verbatim>\<open>wind_dir\<close> and \<^verbatim>\<open>pressure\<close> are never in the provenance
  list.
\<close>

theorem wind_predict_provenance:
  "\<exists>b. wind_predict L S U q = Inr b
     \<and> map obs_name (recent_observations b)
         = [''wind_speed'', ''wind_gust'', ''wind_dir'', ''pressure'']
     \<and> ''wind_dir'' \<notin> set (faker_filled b) \<and> ''pressure'' \<notin> set (faker_filled b)
     \<and> (map_sum id fst (fetch_wind10m L S U (loc_lat (q_location q)) (loc_lon (q_location q))
            (q_when q)) = Inr None
          \<longrightarrow> faker_filled b = [''wind_speed'', ''wind_gust''])"
proof -
  obtain w srcs where w: "fetch_wind10m L S U (loc_lat (q_location q)) (loc_lon (q_location q)) (q_when q) = Inr (w, srcs)"
    using fetch_wind10m_total by blast
  show ?thesis
  proof (cases w)
    case None
    with w wind_predict_absent [of L S U q srcs] show ?thesis by auto
  next
    case (Some x)
    with w wind_predict_live [of L S U q x srcs] show ?thesis by auto
  qed
qed

theorem wind_predict_provenance_witness:
  "map_sum id fst (fetch_wind10m sample_lib no_credentials offline
      (loc_lat (q_location sample_wind_query)) (loc_lon (q_location sample_wind_query))
      (q_when sample_wind_query)) = Inr None
   \<and> map_sum id (map obs_name \<circ> recent_observations)
        (wind_predict sample_lib no_credentials offline sample_wind_query)
       = Inr [''wind_speed'', ''wind_gust'', ''wind_dir'', ''pressure'']
   \<and> map_sum id (set \<circ> faker_filled)
        (wind_predict sample_lib no_credentials offline sample_wind_query)
       = Inr {''wind_speed'', ''wind_gust''}"
proof -
  have absent: "map_sum id fst (fetch_wind10m sample_lib no_credentials offline
      (loc_lat (q_location sample_wind_query)) (loc_lon (q_location sample_wind_query))
      (q_when sample_wind_query)) = Inr None"
    by (simp add: offline_wind)
  from wind_predict_provenance [of sample_lib no_credentials offline sample_wind_query]
  obtain b where b: "wind_predict sample_lib no_credentials offline sample_wind_query = Inr b
     \<and> map obs_name (recent_observations b)
         = [''wind_speed'', ''wind_gust'', ''wind_dir'', ''pressure'']
     \<and> ''wind_dir'' \<notin> set (faker_filled b) \<and> ''pressure'' \<notin> set (faker_filled b)
     \<and> (map_sum id fst (fetch_wind10m sample_lib no_credentials offline
            (loc_lat (q_location sample_wind_query)) (loc_lon (q_location sample_wind_query))
            (q_when sample_wind_query)) = Inr None
          \<longrightarrow> faker_filled b = [''wind_speed'', ''wind_gust''])"
    by (erule exE)
  from b absent have "faker_filled b = [''wind_speed'', ''wind_gust'']"
    by (simp only: simp_thms)
  with b have "wind_predict sample_lib no_credentials offline sample_wind_query = Inr b"
    "map obs_name (recent_observations b) = [''wind_speed'', ''wind_gust'', ''wind_dir'', ''pressure'']"
    "faker_filled b = [''wind_speed'', ''wind_gust'']"
    by (simp_all only: simp_thms)
  with absent show ?thesis by simp
qed

text \<open>
  Claim C3 as stated fails: with the upstream offline, the adapter returns no speed and
  the provenance list holds \<^verbatim>\<open>wind_speed\<close> and \<^verbatim>\<open>wind_gust\<close> only.
\<close>

theorem wind_dir_pressure_outside_provenance:
  "map_sum id fst (fetch_wind10m sample_lib no_credentials offline 40.7 (- 74.0) sample_time) = Inr None
   \<and> map_sum id faker_filled (wind_predict sample_lib no_credentials offline sample_wind_query)
       = Inr [''wind_speed'', ''wind_gust'']"
  by (simp add: wind_predict_def offline_wind await_def Let_def sample_wind_query_def)

text \<open>
  Claim C6. With a generator that draws from the unit interval, the temperature
  response holds \<^verbatim>\<open>t_max_24h\<close> and \<^verbatim>\<open>t_min_24h\<close>: the point temperature of the
  response plus a boost drawn in \<open>[0.5, 6.5]\<close> under the name \<^verbatim>\<open>tmax_boost\<close>, and
  minus a cut drawn in \<open>[0.5, 7.0]\<close> under the name \<^verbatim>\<open>tmin_boost\<close>, each rounded
  to one decimal; neither name is in the provenance list, whether the point temperature
  is live or synthetic.
\<close>

theorem tmax_tmin_exempt_from_provenance:
  assumes rng: "\<forall>s. 0 \<le> rnd_random L s \<and> rnd_random L s < 1"
  shows "\<exists>b. temperature_predict L S U q = Inr b
     \<and> map obs_name (recent_observations b)
         = [''temperature'', ''humidity'', ''t_max_24h'', ''t_min_24h'', ''cloud_cover'']
     \<and> (let t = obs_value (recent_observations b ! 0);
             boost = fake_uniform L (loc_lat (q_location q)) (loc_lon (q_location q))
                       (isoformat (q_when q)) ''tmax_boost'' 0.5 6.5 1;
             cut = fake_uniform L (loc_lat (q_location q)) (loc_lon (q_location q))
                       (isoformat (q_when q)) ''tmin_boost'' 0.5 7.0 1
         in 0.5 \<le> boost \<and> boost \<le> 6.5 \<and> 0.5 \<le> cut \<and> cut \<le> 7.0
          \<and> obs_value (recent_observations b ! 2) = py_round (t + boost) 1
          \<and> obs_value (recent_observations b ! 3) = py_round (t - cut) 1
          \<and> \<bar>obs_value (recent_observations b ! 2) - (t + boost)\<bar> \<le> 0.05
          \<and> \<bar>obs_value (recent_observations b ! 3) - (t - cut)\<bar> \<le> 0.05)
     \<and> ''t_max_24h'' \<notin> set (faker_filled b) \<and> ''t_min_24h'' \<notin> set (faker_filled b)"
proof -
  let ?lat = "loc_lat (q_location q)" and ?lon = "loc_lon (q_location q)"
  let ?iso = "isoformat (q_when q)"
  define boost where "boost = fake_uniform L ?lat ?lon ?iso ''tmax_boost'' 0.5 6.5 1"
  define cut where "cut = fake_uniform L ?lat ?lon ?iso ''tmin_boost'' 0.5 7.0 1"
  have r: "\<And>s. 0 \<le> rnd_random L s" "\<And>s. rnd_random L s \<le> 1"
    using rng by (auto intro: less_imp_le)
  have boost: "0.5 \<le> boost \<and> boost \<le> 6.5" unfolding boost_def
    using fake_uniform_within [OF r(1) r(2), of 1 "0.5" 5 "6.5" 65] by simp
  have cut: "0.5 \<le> cut \<and> cut \<le> 7.0" unfolding cut_def
    using fake_uniform_within [OF r(1) r(2), of 1 "0.5" 5 "7.0" 70] by simp
  have u: "round_unit 1 / 2 = 0.05" by (simp add: round_unit_def)
  have near: "\<bar>py_round x 1 - x\<bar> \<le> 0.05" for x
    using py_round_error [of x 1] by (simp only: u)
  obtain t h ff srcs where b: "temperature_predict L S U q =
     Inr \<lparr>location_name = name_or_unknown (q_location_name q),
          point = predict_point (q_location q),
          time_info = predict_time_block (q_when q) 72,
          recent_observations =
            [\<lparr>obs_name = ''temperature'', obs_value = t, obs_unit = ''degC''\<rparr>,
             \<lparr>obs_name = ''humidity'', obs_value = h, obs_unit = ''%''\<rparr>,
             \<lparr>obs_name = ''t_max_24h'',
               obs_value = py_round (t + fake_uniform L ?lat ?lon ?iso ''tmax_boost'' 0.5 6.5 1) 1,
               obs_unit = ''degC''\<rparr>,
             \<lparr>obs_name = ''t_min_24h'',
               obs_value = py_round (t - fake_uniform L ?lat ?lon ?iso ''tmin_boost'' 0.5 7.0 1) 1,
               obs_unit = ''degC''\<rparr>,
             \<lparr>obs_name = ''cloud_cover'',
               obs_value = fake_uniform L ?lat ?lon ?iso ''cloud_cover'' 5 95 0, obs_unit = ''%''\<rparr>],
          extra_unit = None,
          extra_notes = ''MERRA-2 T2M/RH2M (con fallback y tmax/tmin fake)'',
          faker_filled = ff,
          sources = Some srcs\<rparr>"
    and ff: "set ff \<subseteq> {''temperature'', ''humidity''}"
    using temperature_predict_shape by blast
  have out: "''t_max_24h'' \<notin> set ff" "''t_min_24h'' \<notin> set ff"
    using ff by auto
  show ?thesis
    using boost cut near [of "t + boost"] near [of "t - cut"] out
    unfolding boost_def cut_def by (simp add: b Let_def)
qed

theorem tmax_tmin_exempt_from_provenance_witness:
  "(\<forall>s. 0 \<le> rnd_random sample_lib s \<and> rnd_random sample_lib s < 1)
   \<and> map_sum id (\<lambda>b. (map obs_value (recent_observations b), faker_filled b))
        (temperature_predict sample_lib no_credentials offline sample_temperature_query)
       = Inr ([16.5, 58, 20, 12.7, 50], [''temperature'', ''humidity''])
   \<and> map_sum id (\<lambda>b. (map obs_value (recent_observations b), faker_filled b))
        (temperature_predict sample_lib no_credentials online sample_temperature_query)
       = Inr ([0, 58, 3.5, - 3.8, 50], [''humidity''])"
proof -
  have rng: "\<forall>s. 0 \<le> rnd_random sample_lib s \<and> rnd_random sample_lib s < 1"
    by (simp add: sample_lib_def)
  have draw: "fake_uniform sample_lib lat lon iso var lo hi nd = py_round (lo + (hi - lo) / 2) nd"
    for lat lon iso var lo hi nd
    by (simp add: fake_uniform_def uniform_def sample_lib_def)
  have off: "fetch_m2_scalar sample_lib no_credentials offline var lat lon d
      = Inr (None, snd (projr (fetch_m2_scalar sample_lib no_credentials offline var lat lon d)))"
    for var lat lon d
    by (simp add: fetch_m2_scalar_def offline_def failing_def Let_def split: prod.splits)
  have a: "map_sum id (\<lambda>b. (map obs_value (recent_observations b), faker_filled b))
        (temperature_predict sample_lib no_credentials offline sample_temperature_query)
       = Inr ([16.5, 58, 20, 12.7, 50], [''temperature'', ''humidity''])"
    apply (simp add: temperature_predict_def fetch_t2m_c_def fetch_rh2m_def await_def Let_def
        sample_temperature_query_def)
    apply (subst off, simp add: await_def)
    apply (subst off, simp add: await_def draw py_round_def py_round0_def)
    done
  have b: "map_sum id (\<lambda>b. (map obs_value (recent_observations b), faker_filled b))
        (temperature_predict sample_lib no_credentials online sample_temperature_query)
       = Inr ([0, 58, 3.5, - 3.8, 50], [''humidity''])"
    apply (simp add: temperature_predict_def fetch_t2m_c_def fetch_rh2m_def Let_def
        sample_temperature_query_def online_scalar draw)
    apply (simp add: sample_lib_def await_def fake_uniform_def uniform_def py_round_def
        py_round0_def)
    done
  from tmax_tmin_exempt_from_provenance [OF rng, of no_credentials offline sample_temperature_query]
  show ?thesis using rng a b by simp
qed

end
